theory Spec2Isabelle
  imports Complex_Main
begin

section \<open>Data model of the power-flow engine\<close>

text \<open>
  The engine is written in TypeScript; every quantity is a \<open>number\<close>. The embedding reads
  a \<open>number\<close> as an exact \<^typ>\<open>real\<close>: comparisons, \<open>Math.max\<close>, \<open>Math.min\<close> and
  the four arithmetic operations are the real ones, and rounding is not modelled.
  Non-finite numbers are not modelled either: a quotient by zero is \<open>Infinity\<close> or \<open>NaN\<close> in
  the program and 0 in HOL. The engine divides by the C-rating, by capacity times voltage,
  by the inverter efficiency and by the voltage and the gauge of a wire; the statements
  below describe the program for configurations in which these are not zero, and every
  concrete evaluation below is at such a configuration.
\<close>

datatype SystemMode = OFF_GRID | ON_GRID | HYBRID

record SystemConfig =
  numPanels :: real
  panelWattage :: real
  panelVoltage :: real
  wireGaugeMm2 :: real
  wireLengthFt :: real
  batteryCapacityAh :: real
  batteryVoltage :: real
  batteryCRating :: real
  inverterEfficiency :: real
  controllerEfficiency :: real

record WireAnalysis =
  current :: real
  resistance :: real
  powerLoss :: real
  voltageDrop :: real
  voltageDropPercent :: real
  isSafe :: bool
  recommendedMm2 :: real
  message :: string

record WireSegmentStats =
  current :: real
  powerLoss :: real
  voltageDrop :: real
  isSafe :: bool

record WireStats =
  solarToController :: WireSegmentStats
  controllerToBattery :: WireSegmentStats
  batteryToInverter :: WireSegmentStats
  inverterToLoad :: WireSegmentStats

text \<open>
  The mutable local variables of \<open>calculateSystemState\<close> that the routing, controller,
  clamp and netting blocks read and assign.
\<close>

record Locals =
  inverterDrawFromBattery :: real
  gridActive :: bool
  gridExport :: real
  gridImport :: real
  gridChargingPower :: real
  powerToBattery :: real
  wastedPower :: real
  netBatteryFlow :: real
  effectiveControllerOutput :: real

text \<open>
  \<open>SystemState\<close> as declared in \<open>SimulationEngine.ts\<close>; the later revision of the engine
  returns the same fields and \<open>battToInvPower\<close> in addition.
\<close>

record SystemState_v1 =
  sunIntensity :: real
  generation :: real
  panelVoltage :: real
  wireAnalysis :: WireAnalysis
  wireStats :: WireStats
  powerAtController :: real
  powerToBattery :: real
  batteryLevel :: real
  batteryPercent :: real
  acLoad :: real
  inverterInput :: real
  netBatteryFlow :: real
  gridActive :: bool
  gridExport :: real
  gridImport :: real
  wastedPower :: real

record SystemState = SystemState_v1 +
  battToInvPower :: real

definition DEFAULT_CONFIG :: SystemConfig where
  "DEFAULT_CONFIG = \<lparr>
     numPanels = 2,
     panelWattage = 250,
     SystemConfig.panelVoltage = 25,
     wireGaugeMm2 = 10,
     wireLengthFt = 20,
     batteryCapacityAh = 300,
     batteryVoltage = 24,
     batteryCRating = 20,
     inverterEfficiency = 0.8,
     controllerEfficiency = 0.9 \<rparr>"

section \<open>The engine\<close>

subsection \<open>Wire segment\<close>

definition calcWire :: "real \<Rightarrow> real \<Rightarrow> real \<Rightarrow> real \<Rightarrow> WireSegmentStats" where
  "calcWire pwr voltage lengthFt gauge =
     (if pwr \<le> 0 \<or> voltage \<le> 0
      then \<lparr> current = 0, powerLoss = 0, voltageDrop = 0, isSafe = True \<rparr>
      else
        let curr = pwr / voltage;
            lengthM = lengthFt * 0.3048;
            resist = (0.0172 * lengthM * 2) / gauge;
            loss = curr ^ 2 * resist;
            vdrop = curr * resist;
            safe = (curr \<le> gauge * 5)
        in \<lparr> current = curr, powerLoss = loss, voltageDrop = vdrop, isSafe = safe \<rparr>)"

subsection \<open>Sun window, generation, battery limits\<close>

definition effectiveIntensityOf :: "real \<Rightarrow> real \<Rightarrow> real" where
  "effectiveIntensityOf sunInt timeOfDay =
     (if timeOfDay < 9 \<or> timeOfDay > 16 then 0 else sunInt)"

definition solarInputOf :: "SystemConfig \<Rightarrow> real \<Rightarrow> real" where
  "solarInputOf config effInt = numPanels config * panelWattage config * effInt"

definition solarStatsOf :: "SystemConfig \<Rightarrow> real \<Rightarrow> WireSegmentStats" where
  "solarStatsOf config solarInput =
     calcWire solarInput (SystemConfig.panelVoltage config) (wireLengthFt config) (wireGaugeMm2 config)"

definition powerAtControllerOf :: "SystemConfig \<Rightarrow> real \<Rightarrow> real" where
  "powerAtControllerOf config solarInput =
     max 0 (solarInput - WireSegmentStats.powerLoss (solarStatsOf config solarInput))"

definition maxChargePowerOf :: "SystemConfig \<Rightarrow> real" where
  "maxChargePowerOf config =
     (let maxChargeCurrent = batteryCapacityAh config / batteryCRating config
      in maxChargeCurrent * batteryVoltage config)"

definition maxWhOf :: "SystemConfig \<Rightarrow> real" where
  "maxWhOf config = batteryCapacityAh config * batteryVoltage config"

definition batteryPercentOf :: "SystemConfig \<Rightarrow> real \<Rightarrow> real" where
  "batteryPercentOf config currentBatteryLevel = (currentBatteryLevel / maxWhOf config) * 100"

subsection \<open>Mode router (block 5 of \<open>calculateSystemState\<close>)\<close>

definition initLocals :: Locals where
  "initLocals = \<lparr>
     inverterDrawFromBattery = 0,
     Locals.gridActive = False,
     Locals.gridExport = 0,
     Locals.gridImport = 0,
     gridChargingPower = 0,
     Locals.powerToBattery = 0,
     Locals.wastedPower = 0,
     Locals.netBatteryFlow = 0,
     effectiveControllerOutput = 0 \<rparr>"

definition routeLoad ::
  "SystemMode \<Rightarrow> SystemConfig \<Rightarrow> real \<Rightarrow> real \<Rightarrow> real \<Rightarrow> real \<Rightarrow> real \<Rightarrow> Locals" where
  "routeLoad systemMode config acLd effInt solarInput pAtController battPercent =
     (let inverterInp = acLd / inverterEfficiency config;
          maxChargePower = maxChargePowerOf config
      in case systemMode of
           OFF_GRID \<Rightarrow>
             initLocals \<lparr> Locals.gridActive := False, inverterDrawFromBattery := inverterInp \<rparr>
         | ON_GRID \<Rightarrow>
             (let solarPowerAC = solarInput * inverterEfficiency config
              in if solarPowerAC \<ge> acLd
                 then initLocals \<lparr> Locals.gridActive := True,
                        Locals.gridExport := solarPowerAC - acLd, Locals.gridImport := 0,
                        inverterDrawFromBattery := 0 \<rparr>
                 else initLocals \<lparr> Locals.gridActive := True,
                        Locals.gridExport := 0, Locals.gridImport := acLd - solarPowerAC,
                        inverterDrawFromBattery := 0 \<rparr>)
         | HYBRID \<Rightarrow>
             (let GRID_THRESHOLD = 30;
                  GRID_CHARGE_THRESHOLD = 20;
                  isLowSolar = (effInt < 0.1);
                  solarAvailableForLoad = pAtController * controllerEfficiency config;
                  batteryCanSupport = (battPercent > GRID_THRESHOLD)
              in if solarAvailableForLoad \<ge> inverterInp
                 then initLocals \<lparr> Locals.gridActive := True, inverterDrawFromBattery := inverterInp \<rparr>
                 else if batteryCanSupport
                 then initLocals \<lparr> Locals.gridActive := True, inverterDrawFromBattery := inverterInp \<rparr>
                 else
                   (let l = initLocals \<lparr> Locals.gridActive := True, Locals.gridImport := acLd,
                              inverterDrawFromBattery := 0 \<rparr>
                    in if battPercent < GRID_CHARGE_THRESHOLD \<and> isLowSolar
                       then (let chargeNeeded = maxChargePower;
                                 charging = chargeNeeded / inverterEfficiency config
                             in l \<lparr> gridChargingPower := charging,
                                    Locals.gridImport := Locals.gridImport l + charging \<rparr>)
                       else l)))"

subsection \<open>Controller output (block 6)\<close>

definition controllerOutput :: "SystemMode \<Rightarrow> SystemConfig \<Rightarrow> real \<Rightarrow> Locals \<Rightarrow> Locals" where
  "controllerOutput systemMode config pAtController l =
     (let maxChargePower = maxChargePowerOf config;
          powerAvailableForCharging = pAtController * controllerEfficiency config;
          totalDemand = (if systemMode = ON_GRID then 0
                         else maxChargePower + inverterDrawFromBattery l)
      in if systemMode = ON_GRID
         then l \<lparr> Locals.powerToBattery := 0 \<rparr>
         else if powerAvailableForCharging > totalDemand
         then (if systemMode = HYBRID
               then (let excessDC = powerAvailableForCharging - totalDemand
                     in l \<lparr> Locals.powerToBattery := powerAvailableForCharging,
                            Locals.wastedPower := 0,
                            inverterDrawFromBattery := inverterDrawFromBattery l + excessDC,
                            Locals.gridExport := excessDC * inverterEfficiency config,
                            Locals.gridActive := True \<rparr>)
               else l \<lparr> Locals.powerToBattery := totalDemand,
                      Locals.wastedPower := powerAvailableForCharging - totalDemand \<rparr>)
         else l \<lparr> Locals.powerToBattery := powerAvailableForCharging, Locals.wastedPower := 0 \<rparr>)"

subsection \<open>Net battery flow and the full-battery clamp (block 7)\<close>

definition netFlow :: "SystemMode \<Rightarrow> SystemConfig \<Rightarrow> Locals \<Rightarrow> Locals" where
  "netFlow systemMode config l =
     (let l1 = l \<lparr> Locals.netBatteryFlow := 0,
                   effectiveControllerOutput := Locals.powerToBattery l \<rparr>
      in if systemMode = ON_GRID
         then l1 \<lparr> Locals.netBatteryFlow := 0 \<rparr>
         else (let gridChargeDC = gridChargingPower l1 * inverterEfficiency config
               in l1 \<lparr> Locals.netBatteryFlow :=
                        (effectiveControllerOutput l1 + gridChargeDC) - inverterDrawFromBattery l1 \<rparr>))"

definition fullBatteryClamp :: "SystemMode \<Rightarrow> SystemConfig \<Rightarrow> bool \<Rightarrow> Locals \<Rightarrow> Locals" where
  "fullBatteryClamp systemMode config isBatteryFull l =
     (if systemMode = ON_GRID then l
      else if isBatteryFull \<and> Locals.netBatteryFlow l > 0
      then (let excessCharge = Locals.netBatteryFlow l
            in if systemMode = HYBRID
               then l \<lparr> inverterDrawFromBattery := inverterDrawFromBattery l + excessCharge,
                      Locals.gridExport :=
                        Locals.gridExport l + (excessCharge * inverterEfficiency config),
                      Locals.netBatteryFlow := 0 \<rparr>
               else l \<lparr> effectiveControllerOutput := effectiveControllerOutput l - excessCharge,
                      Locals.wastedPower := Locals.wastedPower l + excessCharge,
                      Locals.netBatteryFlow := 0 \<rparr>)
      else l)"

subsection \<open>Net grid flow correction\<close>

definition netGrid :: "Locals \<Rightarrow> Locals" where
  "netGrid l =
     (if Locals.gridImport l > 0 \<and> Locals.gridExport l > 0
      then (if Locals.gridImport l \<ge> Locals.gridExport l
            then l \<lparr> Locals.gridImport := Locals.gridImport l - Locals.gridExport l,
                   Locals.gridExport := 0 \<rparr>
            else l \<lparr> Locals.gridExport := Locals.gridExport l - Locals.gridImport l,
                   Locals.gridImport := 0 \<rparr>)
      else l)"

subsection \<open>The locals at three points of one evaluation\<close>

definition preClampLocals ::
  "real \<Rightarrow> real \<Rightarrow> real \<Rightarrow> SystemConfig \<Rightarrow> real \<Rightarrow> SystemMode \<Rightarrow> Locals" where
  "preClampLocals sunInt acLd currentBatteryLevel config timeOfDay systemMode =
     (let effectiveIntensity = effectiveIntensityOf sunInt timeOfDay;
          solarInput = solarInputOf config effectiveIntensity;
          pAtController = powerAtControllerOf config solarInput;
          battPercent = batteryPercentOf config currentBatteryLevel
      in netFlow systemMode config
           (controllerOutput systemMode config pAtController
              (routeLoad systemMode config acLd effectiveIntensity solarInput pAtController battPercent)))"

definition preNettingLocals ::
  "real \<Rightarrow> real \<Rightarrow> real \<Rightarrow> SystemConfig \<Rightarrow> real \<Rightarrow> SystemMode \<Rightarrow> Locals" where
  "preNettingLocals sunInt acLd currentBatteryLevel config timeOfDay systemMode =
     (let isBatteryFull = (batteryPercentOf config currentBatteryLevel \<ge> 100)
      in fullBatteryClamp systemMode config isBatteryFull
           (preClampLocals sunInt acLd currentBatteryLevel config timeOfDay systemMode))"

definition finalLocals ::
  "real \<Rightarrow> real \<Rightarrow> real \<Rightarrow> SystemConfig \<Rightarrow> real \<Rightarrow> SystemMode \<Rightarrow> Locals" where
  "finalLocals sunInt acLd currentBatteryLevel config timeOfDay systemMode =
     netGrid (preNettingLocals sunInt acLd currentBatteryLevel config timeOfDay systemMode)"

subsection \<open>The snapshot\<close>

definition legacyWireAnalysis :: "SystemConfig \<Rightarrow> WireSegmentStats \<Rightarrow> WireAnalysis" where
  "legacyWireAnalysis config solarStats = \<lparr>
     WireAnalysis.current = WireSegmentStats.current solarStats,
     resistance = 0,
     WireAnalysis.powerLoss = WireSegmentStats.powerLoss solarStats,
     WireAnalysis.voltageDrop = WireSegmentStats.voltageDrop solarStats,
     voltageDropPercent =
       (WireSegmentStats.voltageDrop solarStats / SystemConfig.panelVoltage config) * 100,
     WireAnalysis.isSafe = WireSegmentStats.isSafe solarStats,
     recommendedMm2 = 0,
     message = (if WireSegmentStats.isSafe solarStats then ''OK''
                else ''WARNING: Wire overheating!'') \<rparr>"

definition calculateSystemState ::
  "real \<Rightarrow> real \<Rightarrow> real \<Rightarrow> SystemConfig \<Rightarrow> real \<Rightarrow> SystemMode \<Rightarrow> SystemState" where
  "calculateSystemState sunInt acLd currentBatteryLevel config timeOfDay systemMode =
     (let effectiveIntensity = effectiveIntensityOf sunInt timeOfDay;
          solarInput = solarInputOf config effectiveIntensity;
          solarStats = solarStatsOf config solarInput;
          pAtController = powerAtControllerOf config solarInput;
          battPercent = batteryPercentOf config currentBatteryLevel;
          inverterInp = acLd / inverterEfficiency config;
          l = finalLocals sunInt acLd currentBatteryLevel config timeOfDay systemMode;
          controllerToBattStats =
            calcWire (Locals.powerToBattery l) (batteryVoltage config) 5 (wireGaugeMm2 config);
          battToInvPwr = (if gridChargingPower l > 0 then gridChargingPower l
                          else inverterDrawFromBattery l);
          battToInvStats = calcWire battToInvPwr (batteryVoltage config) 5 (wireGaugeMm2 config);
          invToLoadStats = calcWire acLd 230 20 2.5
      in \<lparr> sunIntensity = effectiveIntensity,
           generation = solarInput,
           panelVoltage = SystemConfig.panelVoltage config,
           wireAnalysis = legacyWireAnalysis config solarStats,
           wireStats = \<lparr> solarToController = solarStats,
                         controllerToBattery = controllerToBattStats,
                         batteryToInverter = battToInvStats,
                         inverterToLoad = invToLoadStats \<rparr>,
           powerAtController = pAtController,
           powerToBattery = effectiveControllerOutput l,
           batteryLevel = currentBatteryLevel,
           batteryPercent = battPercent,
           acLoad = acLd,
           inverterInput = inverterInp,
           netBatteryFlow = Locals.netBatteryFlow l,
           gridActive = Locals.gridActive l,
           gridExport = Locals.gridExport l,
           gridImport = Locals.gridImport l,
           wastedPower = Locals.wastedPower l,
           battToInvPower = battToInvPwr \<rparr>)"

section \<open>The earlier revision of the engine (\<open>SimulationEngine.ts\<close>)\<close>

text \<open>
  The sun window, the generation, \<open>calcWire\<close>, the solar leg, the charge limit and the
  battery percentage are the same program text in both revisions, so both embeddings use
  the definitions above for them. Charging, routing and the net flow differ.
\<close>

definition calculateSystemState_v1 ::
  "real \<Rightarrow> real \<Rightarrow> real \<Rightarrow> SystemConfig \<Rightarrow> real \<Rightarrow> SystemMode \<Rightarrow> SystemState_v1" where
  "calculateSystemState_v1 sunInt acLd currentBatteryLevel config timeOfDay systemMode =
     (let effectiveIntensity = effectiveIntensityOf sunInt timeOfDay;
          solarInput = solarInputOf config effectiveIntensity;
          solarStats = solarStatsOf config solarInput;
          pAtController = powerAtControllerOf config solarInput;
          maxChargePower = maxChargePowerOf config;
          powerAvailableForCharging = pAtController * controllerEfficiency config;
          (pToBattery, wasted) =
            (if systemMode = ON_GRID then (0, 0)
             else if powerAvailableForCharging > maxChargePower
             then (maxChargePower, powerAvailableForCharging - maxChargePower)
             else (powerAvailableForCharging, 0));
          controllerToBattStats =
            calcWire pToBattery (batteryVoltage config) 5 (wireGaugeMm2 config);
          battPercent = batteryPercentOf config currentBatteryLevel;
          isBatteryFull = (battPercent \<ge> 100);
          inverterInp = acLd / inverterEfficiency config;
          (inverterDraw, gActive, gExport, gImport) =
            (case systemMode of
               OFF_GRID \<Rightarrow> (inverterInp, False, 0, 0)
             | ON_GRID \<Rightarrow>
                 (let solarPowerAC = solarInput * inverterEfficiency config
                  in if solarPowerAC \<ge> acLd then (0, True, solarPowerAC - acLd, 0)
                     else (0, True, 0, acLd - solarPowerAC))
             | HYBRID \<Rightarrow>
                 (let active = (battPercent < 70)
                  in if active then (0, active, 0, acLd) else (inverterInp, active, 0, 0)));
          battToInvStats = calcWire inverterDraw (batteryVoltage config) 5 (wireGaugeMm2 config);
          invToLoadStats = calcWire acLd 230 20 2.5;
          netFlw = (if systemMode = ON_GRID then 0
                    else (let actualCharge = (if isBatteryFull then 0 else pToBattery)
                          in actualCharge - inverterDraw))
      in \<lparr> sunIntensity = effectiveIntensity,
           generation = solarInput,
           panelVoltage = SystemConfig.panelVoltage config,
           wireAnalysis = legacyWireAnalysis config solarStats,
           wireStats = \<lparr> solarToController = solarStats,
                         controllerToBattery = controllerToBattStats,
                         batteryToInverter = battToInvStats,
                         inverterToLoad = invToLoadStats \<rparr>,
           powerAtController = pAtController,
           powerToBattery = pToBattery,
           batteryLevel = currentBatteryLevel,
           batteryPercent = battPercent,
           acLoad = acLd,
           inverterInput = inverterInp,
           netBatteryFlow = netFlw,
           gridActive = gActive,
           gridExport = gExport,
           gridImport = gImport,
           wastedPower = wasted \<rparr>)"

section \<open>The host: battery energy integrator and configuration edits (\<open>App\<close>)\<close>

text \<open>
  The state of the \<open>App\<close> component that the integrator reads and writes. \<open>lastTimeRef\<close>
  holds \<open>Date.now()\<close> of the previous tick, in milliseconds.
\<close>

record AppState =
  sunIntensity :: real
  timeOfDay :: real
  acLoad :: real
  systemMode :: SystemMode
  config :: SystemConfig
  batteryLevel :: real
  lastTimeRef :: int

text \<open>The updater passed to \<open>setBatteryLevel\<close> by the interval callback.\<close>

definition integrateLevel ::
  "real \<Rightarrow> real \<Rightarrow> SystemConfig \<Rightarrow> real \<Rightarrow> SystemMode \<Rightarrow> real \<Rightarrow> real \<Rightarrow> real" where
  "integrateLevel sunInt acLd cfg tod sysMode dtSeconds prevLevel =
     (let state = calculateSystemState sunInt acLd prevLevel cfg tod sysMode;
          effectiveDtHours = (dtSeconds * 10) / 3600;
          energyChange = netBatteryFlow state * effectiveDtHours;
          maxWh = batteryCapacityAh cfg * batteryVoltage cfg;
          newLevel = prevLevel + energyChange
      in max 0 (min newLevel maxWh))"

text \<open>One run of the interval callback at wall-clock time \<open>now\<close>.\<close>

definition intervalTick :: "int \<Rightarrow> AppState \<Rightarrow> AppState" where
  "intervalTick now s =
     (let dtSeconds = real_of_int (now - lastTimeRef s) / 1000
      in s \<lparr> lastTimeRef := now,
             batteryLevel :=
               integrateLevel (AppState.sunIntensity s) (AppState.acLoad s) (config s)
                 (timeOfDay s) (systemMode s) dtSeconds (batteryLevel s) \<rparr>)"

text \<open>
  The state setter \<open>setConfig\<close>, handed to the editor as \<open>onConfigChange\<close>: it replaces the
  configuration and leaves the stored energy as it is.
\<close>

definition setConfig :: "SystemConfig \<Rightarrow> AppState \<Rightarrow> AppState" where
  "setConfig newConfig s = s \<lparr> config := newConfig \<rparr>"

text \<open>The snapshot that every render of \<open>App\<close> computes from the state it sees.\<close>

definition currentSystemState :: "AppState \<Rightarrow> SystemState" where
  "currentSystemState s =
     calculateSystemState (AppState.sunIntensity s) (AppState.acLoad s) (batteryLevel s)
       (config s) (timeOfDay s) (systemMode s)"

text \<open>
  The effect with the dependencies \<open>config.batteryCapacityAh\<close> and
  \<open>config.batteryVoltage\<close>. It runs after a render in which one of the two differs from
  its value \<open>prevConfig\<close> in the render before, and re-clamps the stored energy.
\<close>

definition reclampEffect :: "SystemConfig \<Rightarrow> AppState \<Rightarrow> AppState" where
  "reclampEffect prevConfig s =
     (if batteryCapacityAh (config s) \<noteq> batteryCapacityAh prevConfig
         \<or> batteryVoltage (config s) \<noteq> batteryVoltage prevConfig
      then (let maxWh = batteryCapacityAh (config s) * batteryVoltage (config s)
            in s \<lparr> batteryLevel := min (batteryLevel s) maxWh \<rparr>)
      else s)"

text \<open>
  An edit of the configuration passes through three states: the state \<open>s\<close> before it, the
  state \<open>setConfig newConfig s\<close> that the next render sees (new configuration, stored
  energy not yet re-clamped), and the state after the effect. \<open>editRenders\<close> lists the
  snapshots of the renders that the edit causes; \<open>handle\<close> returns the state after the
  effect.
\<close>

definition editRenders :: "SystemConfig \<Rightarrow> AppState \<Rightarrow> SystemState list" where
  "editRenders newConfig s =
     [currentSystemState (setConfig newConfig s),
      currentSystemState (reclampEffect (config s) (setConfig newConfig s))]"

datatype Event =
    Interval int
  | SetConfig SystemConfig
  | SunPositionChange real real
  | SetAcLoad real
  | SetSystemMode SystemMode

fun handle :: "AppState \<Rightarrow> Event \<Rightarrow> AppState" where
  "handle s (Interval now) = intervalTick now s"
| "handle s (SetConfig newConfig) = reclampEffect (config s) (setConfig newConfig s)"
| "handle s (SunPositionChange intensity time) =
     s \<lparr> AppState.sunIntensity := intensity, timeOfDay := time \<rparr>"
| "handle s (SetAcLoad w) = s \<lparr> AppState.acLoad := w \<rparr>"
| "handle s (SetSystemMode m) = s \<lparr> systemMode := m \<rparr>"

definition run :: "AppState \<Rightarrow> Event list \<Rightarrow> AppState" where
  "run s evs = foldl handle s evs"

text \<open>The initial state of \<open>App\<close>, with the clock reading \<open>t0\<close> at mount.\<close>

definition initialApp :: "int \<Rightarrow> AppState" where
  "initialApp t0 = \<lparr>
     AppState.sunIntensity = 0,
     timeOfDay = 9,
     AppState.acLoad = 100,
     systemMode = HYBRID,
     config = DEFAULT_CONFIG,
     batteryLevel = batteryCapacityAh DEFAULT_CONFIG * batteryVoltage DEFAULT_CONFIG * 0.5,
     lastTimeRef = t0 \<rparr>"

section \<open>Reading the snapshot\<close>

text \<open>Each reported field, in terms of the locals at the end of the evaluation.\<close>

lemma css_generation:
  "generation (calculateSystemState si al lvl cfg tod m)
     = solarInputOf cfg (effectiveIntensityOf si tod)"
  by (simp add: calculateSystemState_def Let_def)

lemma css_sunIntensity:
  "SystemState_v1.sunIntensity (calculateSystemState si al lvl cfg tod m)
     = effectiveIntensityOf si tod"
  by (simp add: calculateSystemState_def Let_def)

lemma css_gridImport:
  "gridImport (calculateSystemState si al lvl cfg tod m)
     = Locals.gridImport (finalLocals si al lvl cfg tod m)"
  by (simp add: calculateSystemState_def Let_def)

lemma css_gridExport:
  "gridExport (calculateSystemState si al lvl cfg tod m)
     = Locals.gridExport (finalLocals si al lvl cfg tod m)"
  by (simp add: calculateSystemState_def Let_def)

lemma css_gridActive:
  "gridActive (calculateSystemState si al lvl cfg tod m)
     = Locals.gridActive (finalLocals si al lvl cfg tod m)"
  by (simp add: calculateSystemState_def Let_def)

lemma css_netBatteryFlow:
  "netBatteryFlow (calculateSystemState si al lvl cfg tod m)
     = Locals.netBatteryFlow (finalLocals si al lvl cfg tod m)"
  by (simp add: calculateSystemState_def Let_def)

lemma css_wastedPower:
  "wastedPower (calculateSystemState si al lvl cfg tod m)
     = Locals.wastedPower (finalLocals si al lvl cfg tod m)"
  by (simp add: calculateSystemState_def Let_def)

lemma css_powerToBattery:
  "powerToBattery (calculateSystemState si al lvl cfg tod m)
     = effectiveControllerOutput (finalLocals si al lvl cfg tod m)"
  by (simp add: calculateSystemState_def Let_def)

lemma css_battToInvPower:
  "battToInvPower (calculateSystemState si al lvl cfg tod m) =
     (if gridChargingPower (finalLocals si al lvl cfg tod m) > 0
      then gridChargingPower (finalLocals si al lvl cfg tod m)
      else inverterDrawFromBattery (finalLocals si al lvl cfg tod m))"
  by (simp add: calculateSystemState_def Let_def)

lemma css_batteryPercent:
  "batteryPercent (calculateSystemState si al lvl cfg tod m) = batteryPercentOf cfg lvl"
  by (simp add: calculateSystemState_def Let_def)

lemma css_inverterInput:
  "inverterInput (calculateSystemState si al lvl cfg tod m) = al / inverterEfficiency cfg"
  by (simp add: calculateSystemState_def Let_def)

lemma css_powerAtController:
  "powerAtController (calculateSystemState si al lvl cfg tod m)
     = powerAtControllerOf cfg (solarInputOf cfg (effectiveIntensityOf si tod))"
  by (simp add: calculateSystemState_def Let_def)

lemmas pipeline_defs = finalLocals_def preNettingLocals_def preClampLocals_def netGrid_def
  fullBatteryClamp_def netFlow_def controllerOutput_def routeLoad_def initLocals_def

lemmas eval_defs = pipeline_defs effectiveIntensityOf_def solarInputOf_def solarStatsOf_def
  powerAtControllerOf_def maxChargePowerOf_def maxWhOf_def batteryPercentOf_def calcWire_def
  DEFAULT_CONFIG_def Let_def

section \<open>Wire segment model\<close>

text \<open>
  Claim C8. For every wire-segment evaluation: if the power or the voltage is not
  positive, the result is all zero with \<open>isSafe\<close> true; otherwise the current is
  power / voltage, the resistance is (0.0172 * lengthFt * 0.3048 * 2) / gauge, the power
  loss is current squared times resistance, the voltage drop is current times resistance,
  and \<open>isSafe\<close> holds exactly when the current is at most gauge * 5. Both revisions of the
  engine contain this helper with the same text.
\<close>

theorem calcWire_segment:
  "calcWire pwr voltage lengthFt gauge =
     (if pwr \<le> 0 \<or> voltage \<le> 0
      then \<lparr> current = 0, powerLoss = 0, voltageDrop = 0, isSafe = True \<rparr>
      else \<lparr> current = pwr / voltage,
             powerLoss = (pwr / voltage)\<^sup>2 * ((0.0172 * lengthFt * 0.3048 * 2) / gauge),
             voltageDrop = (pwr / voltage) * ((0.0172 * lengthFt * 0.3048 * 2) / gauge),
             isSafe = (pwr / voltage \<le> gauge * 5) \<rparr>)"
  by (simp add: calcWire_def Let_def)

section \<open>Generation stage\<close>

text \<open>
  Claim C9. For every time of day outside [9, 16] and every supplied sun intensity, the
  snapshot's effective sun intensity and generation are exactly 0; inside the window the
  effective intensity is the supplied one, and generation is
  numPanels * panelWattage * effective intensity.
\<close>

theorem daylight_window:
  "(tod < 9 \<or> tod > 16 \<longrightarrow>
      SystemState_v1.sunIntensity (calculateSystemState si al lvl cfg tod m) = 0
      \<and> generation (calculateSystemState si al lvl cfg tod m) = 0)
   \<and> (9 \<le> tod \<and> tod \<le> 16 \<longrightarrow>
      SystemState_v1.sunIntensity (calculateSystemState si al lvl cfg tod m) = si
      \<and> generation (calculateSystemState si al lvl cfg tod m)
          = numPanels cfg * panelWattage cfg * si)
   \<and> generation (calculateSystemState si al lvl cfg tod m) =
        numPanels cfg * panelWattage cfg
          * SystemState_v1.sunIntensity (calculateSystemState si al lvl cfg tod m)"
  by (auto simp add: css_generation css_sunIntensity effectiveIntensityOf_def solarInputOf_def)

theorem daylight_window_witness:
  "(20::real) > 16
   \<and> SystemState_v1.sunIntensity (calculateSystemState 1 100 3600 DEFAULT_CONFIG 20 HYBRID) = 0
   \<and> generation (calculateSystemState 1 100 3600 DEFAULT_CONFIG 20 HYBRID) = 0
   \<and> (9::real) \<le> 12 \<and> (12::real) \<le> 16
   \<and> SystemState_v1.sunIntensity (calculateSystemState 1 100 3600 DEFAULT_CONFIG 12 HYBRID) = 1
   \<and> generation (calculateSystemState 1 100 3600 DEFAULT_CONFIG 12 HYBRID) = 500"
  using daylight_window [where tod = 20 and si = 1 and al = 100 and lvl = 3600
          and cfg = DEFAULT_CONFIG and m = HYBRID]
        daylight_window [where tod = 12 and si = 1 and al = 100 and lvl = 3600
          and cfg = DEFAULT_CONFIG and m = HYBRID]
  by (simp add: DEFAULT_CONFIG_def)

section \<open>Mode router\<close>

text \<open>
  Claim C5. In ON_GRID mode, for every input: the net battery flow is exactly 0 and the
  inverter draws nothing from the battery; with solarAC = generation * inverterEfficiency,
  if solarAC is at least the AC load then gridExport = solarAC - acLoad and gridImport = 0,
  otherwise gridImport = acLoad - solarAC and gridExport = 0; and the grid is marked
  active.
\<close>

theorem on_grid_routing:
  "netBatteryFlow (calculateSystemState si al lvl cfg tod ON_GRID) = 0
   \<and> inverterDrawFromBattery (finalLocals si al lvl cfg tod ON_GRID) = 0
   \<and> battToInvPower (calculateSystemState si al lvl cfg tod ON_GRID) = 0
   \<and> gridActive (calculateSystemState si al lvl cfg tod ON_GRID)
   \<and> (if generation (calculateSystemState si al lvl cfg tod ON_GRID) * inverterEfficiency cfg
          \<ge> al
      then gridExport (calculateSystemState si al lvl cfg tod ON_GRID)
             = generation (calculateSystemState si al lvl cfg tod ON_GRID)
                 * inverterEfficiency cfg - al
           \<and> gridImport (calculateSystemState si al lvl cfg tod ON_GRID) = 0
      else gridImport (calculateSystemState si al lvl cfg tod ON_GRID)
             = al - generation (calculateSystemState si al lvl cfg tod ON_GRID)
                      * inverterEfficiency cfg
           \<and> gridExport (calculateSystemState si al lvl cfg tod ON_GRID) = 0)"
  by (simp add: css_generation css_netBatteryFlow css_battToInvPower css_gridActive
        css_gridExport css_gridImport pipeline_defs Let_def)

text \<open>
  Claim C2. For every evaluation in which the battery percentage is at least 100 and the
  net battery flow before the clamp is positive, the reported net battery flow is exactly
  0. In HYBRID mode the excess is redirected to export: \<open>inverterDrawFromBattery\<close> grows by
  the excess and \<open>gridExport\<close> by the excess times the inverter efficiency. In OFF_GRID
  mode the excess is subtracted from the effective controller output (reported as
  \<open>powerToBattery\<close>) and \<open>wastedPower\<close> grows by exactly the excess.
\<close>

theorem full_battery_clamp:
  assumes full: "batteryPercent (calculateSystemState si al lvl cfg tod m) \<ge> 100"
      and pos: "Locals.netBatteryFlow (preClampLocals si al lvl cfg tod m) > 0"
  shows "netBatteryFlow (calculateSystemState si al lvl cfg tod m) = 0
     \<and> (m = HYBRID \<longrightarrow>
          inverterDrawFromBattery (finalLocals si al lvl cfg tod m)
            = inverterDrawFromBattery (preClampLocals si al lvl cfg tod m)
              + Locals.netBatteryFlow (preClampLocals si al lvl cfg tod m)
          \<and> gridExport (calculateSystemState si al lvl cfg tod m)
            = Locals.gridExport (preClampLocals si al lvl cfg tod m)
              + Locals.netBatteryFlow (preClampLocals si al lvl cfg tod m)
                * inverterEfficiency cfg)
     \<and> (m = OFF_GRID \<longrightarrow>
          powerToBattery (calculateSystemState si al lvl cfg tod m)
            = effectiveControllerOutput (preClampLocals si al lvl cfg tod m)
              - Locals.netBatteryFlow (preClampLocals si al lvl cfg tod m)
          \<and> wastedPower (calculateSystemState si al lvl cfg tod m)
            = Locals.wastedPower (preClampLocals si al lvl cfg tod m)
              + Locals.netBatteryFlow (preClampLocals si al lvl cfg tod m))"
proof -
  from full have isFull: "batteryPercentOf cfg lvl \<ge> 100"
    by (simp add: css_batteryPercent)
  show ?thesis
  proof (cases m)
    case OFF_GRID
    with isFull pos show ?thesis
      by (simp add: css_netBatteryFlow css_powerToBattery css_wastedPower pipeline_defs Let_def)
  next
    case ON_GRID
    with pos show ?thesis
      by (simp add: preClampLocals_def netFlow_def Let_def)
  next
    case HYBRID
    with isFull have "Locals.gridImport (preClampLocals si al lvl cfg tod m) = 0"
      by (simp add: preClampLocals_def netFlow_def controllerOutput_def routeLoad_def
            initLocals_def Let_def)
    with HYBRID isFull pos show ?thesis
      by (simp add: css_netBatteryFlow css_gridExport finalLocals_def preNettingLocals_def
            netGrid_def fullBatteryClamp_def Let_def)
  qed
qed

theorem full_battery_clamp_witness:
  "batteryPercent (calculateSystemState 1 200 7200 DEFAULT_CONFIG 12 HYBRID) \<ge> 100
   \<and> batteryPercent (calculateSystemState 1 200 7200 DEFAULT_CONFIG 12 OFF_GRID) \<ge> 100
   \<and> Locals.netBatteryFlow (preClampLocals 1 200 7200 DEFAULT_CONFIG 12 HYBRID) > 0
   \<and> Locals.netBatteryFlow (preClampLocals 1 200 7200 DEFAULT_CONFIG 12 OFF_GRID) > 0
   \<and> netBatteryFlow (calculateSystemState 1 200 7200 DEFAULT_CONFIG 12 HYBRID) = 0
   \<and> gridExport (calculateSystemState 1 200 7200 DEFAULT_CONFIG 12 HYBRID)
       = Locals.gridExport (preClampLocals 1 200 7200 DEFAULT_CONFIG 12 HYBRID)
         + Locals.netBatteryFlow (preClampLocals 1 200 7200 DEFAULT_CONFIG 12 HYBRID)
           * inverterEfficiency DEFAULT_CONFIG
   \<and> netBatteryFlow (calculateSystemState 1 200 7200 DEFAULT_CONFIG 12 OFF_GRID) = 0
   \<and> wastedPower (calculateSystemState 1 200 7200 DEFAULT_CONFIG 12 OFF_GRID)
       = Locals.wastedPower (preClampLocals 1 200 7200 DEFAULT_CONFIG 12 OFF_GRID)
         + Locals.netBatteryFlow (preClampLocals 1 200 7200 DEFAULT_CONFIG 12 OFF_GRID)"
proof -
  have fullH: "batteryPercent (calculateSystemState 1 200 7200 DEFAULT_CONFIG 12 HYBRID) \<ge> 100"
    by (simp add: css_batteryPercent batteryPercentOf_def maxWhOf_def DEFAULT_CONFIG_def)
  have fullO: "batteryPercent (calculateSystemState 1 200 7200 DEFAULT_CONFIG 12 OFF_GRID) \<ge> 100"
    by (simp add: css_batteryPercent batteryPercentOf_def maxWhOf_def DEFAULT_CONFIG_def)
  have posH: "Locals.netBatteryFlow (preClampLocals 1 200 7200 DEFAULT_CONFIG 12 HYBRID) > 0"
    by (simp add: eval_defs)
  have posO: "Locals.netBatteryFlow (preClampLocals 1 200 7200 DEFAULT_CONFIG 12 OFF_GRID) > 0"
    by (simp add: eval_defs)
  show ?thesis
    using fullH fullO posH posO
      full_battery_clamp [OF fullH posH] full_battery_clamp [OF fullO posO]
    by simp
qed

lemma need_grid_without_export:
  assumes "batteryPercentOf cfg lvl \<le> 30"
      and "powerAtControllerOf cfg (solarInputOf cfg (effectiveIntensityOf si tod))
             * controllerEfficiency cfg < al / inverterEfficiency cfg"
      and "powerAtControllerOf cfg (solarInputOf cfg (effectiveIntensityOf si tod))
             * controllerEfficiency cfg \<le> maxChargePowerOf cfg"
  shows "inverterDrawFromBattery (finalLocals si al lvl cfg tod HYBRID) = 0
     \<and> Locals.gridImport (finalLocals si al lvl cfg tod HYBRID)
         = (if batteryPercentOf cfg lvl < 20 \<and> effectiveIntensityOf si tod < 0.1
            then al + maxChargePowerOf cfg / inverterEfficiency cfg else al)"
  using assms by (simp add: pipeline_defs Let_def)

lemma emergency_charge_positive:
  assumes "batteryPercentOf cfg lvl < 20" and "effectiveIntensityOf si tod < 0.1"
      and "powerAtControllerOf cfg (solarInputOf cfg (effectiveIntensityOf si tod))
             * controllerEfficiency cfg < al / inverterEfficiency cfg"
      and "0 < inverterEfficiency cfg" and "0 < maxChargePowerOf cfg"
      and "0 \<le> controllerEfficiency cfg"
  shows "0 < Locals.netBatteryFlow (finalLocals si al lvl cfg tod HYBRID)"
proof -
  have "0 \<le> powerAtControllerOf cfg (solarInputOf cfg (effectiveIntensityOf si tod))"
    by (simp add: powerAtControllerOf_def)
  with assms(6)
  have "0 \<le> powerAtControllerOf cfg (solarInputOf cfg (effectiveIntensityOf si tod))
             * controllerEfficiency cfg"
    by simp
  with assms show ?thesis
    by (simp add: pipeline_defs Let_def)
qed

text \<open>
  Claim C3, as the engine has it. In HYBRID mode, whenever the battery percentage is at or
  below the 30 % reserve and DC-bus solar (power at the controller times the controller
  efficiency) does not cover the inverter demand: if DC-bus solar does not exceed the
  maximum charge power (so that the controller block exports nothing), the inverter draws
  nothing from the battery and \<open>gridImport\<close> is the full AC load, increased by exactly
  maxChargePower / inverterEfficiency when in addition the percentage is below 20 and the
  effective sun intensity below 0.1; and in that emergency case the net battery flow is
  positive, with or without export, for a validated configuration (positive inverter
  efficiency and maximum charge power, non-negative controller efficiency).
\<close>

theorem hybrid_grid_fallback:
  assumes reserve: "batteryPercent (calculateSystemState si al lvl cfg tod HYBRID) \<le> 30"
      and short: "powerAtController (calculateSystemState si al lvl cfg tod HYBRID)
                    * controllerEfficiency cfg
                  < inverterInput (calculateSystemState si al lvl cfg tod HYBRID)"
  shows "(powerAtController (calculateSystemState si al lvl cfg tod HYBRID)
            * controllerEfficiency cfg
          \<le> maxChargePowerOf cfg
        \<longrightarrow> inverterDrawFromBattery (finalLocals si al lvl cfg tod HYBRID) = 0
            \<and> (\<not> (batteryPercent (calculateSystemState si al lvl cfg tod HYBRID) < 20
                    \<and> SystemState_v1.sunIntensity (calculateSystemState si al lvl cfg tod HYBRID)
                        < 0.1)
               \<longrightarrow> gridImport (calculateSystemState si al lvl cfg tod HYBRID) = al)
            \<and> (batteryPercent (calculateSystemState si al lvl cfg tod HYBRID) < 20
                 \<and> SystemState_v1.sunIntensity (calculateSystemState si al lvl cfg tod HYBRID)
                     < 0.1
               \<longrightarrow> gridImport (calculateSystemState si al lvl cfg tod HYBRID)
                     = al + maxChargePowerOf cfg / inverterEfficiency cfg))
     \<and> (batteryPercent (calculateSystemState si al lvl cfg tod HYBRID) < 20
          \<and> SystemState_v1.sunIntensity (calculateSystemState si al lvl cfg tod HYBRID) < 0.1
          \<and> 0 < inverterEfficiency cfg \<and> 0 < maxChargePowerOf cfg
          \<and> 0 \<le> controllerEfficiency cfg
        \<longrightarrow> 0 < netBatteryFlow (calculateSystemState si al lvl cfg tod HYBRID))"
proof -
  from reserve have r: "batteryPercentOf cfg lvl \<le> 30"
    by (simp add: css_batteryPercent)
  from short have s: "powerAtControllerOf cfg (solarInputOf cfg (effectiveIntensityOf si tod))
             * controllerEfficiency cfg < al / inverterEfficiency cfg"
    by (simp add: css_powerAtController css_inverterInput)
  show ?thesis
    using need_grid_without_export [OF r s] emergency_charge_positive [OF _ _ s]
    by (simp add: css_batteryPercent css_powerAtController css_sunIntensity css_gridImport
          css_netBatteryFlow)
qed

theorem hybrid_grid_fallback_witness:
  "batteryPercent (calculateSystemState 0 500 1800 DEFAULT_CONFIG 12 HYBRID) = 25
   \<and> powerAtController (calculateSystemState 0 500 1800 DEFAULT_CONFIG 12 HYBRID)
        * controllerEfficiency DEFAULT_CONFIG
      < inverterInput (calculateSystemState 0 500 1800 DEFAULT_CONFIG 12 HYBRID)
   \<and> powerAtController (calculateSystemState 0 500 1800 DEFAULT_CONFIG 12 HYBRID)
        * controllerEfficiency DEFAULT_CONFIG
      \<le> maxChargePowerOf DEFAULT_CONFIG
   \<and> inverterDrawFromBattery (finalLocals 0 500 1800 DEFAULT_CONFIG 12 HYBRID) = 0
   \<and> gridImport (calculateSystemState 0 500 1800 DEFAULT_CONFIG 12 HYBRID) = 500
   \<and> batteryPercent (calculateSystemState 0 500 1080 DEFAULT_CONFIG 12 HYBRID) = 15
   \<and> SystemState_v1.sunIntensity (calculateSystemState 0 500 1080 DEFAULT_CONFIG 12 HYBRID) = 0
   \<and> powerAtController (calculateSystemState 0 500 1080 DEFAULT_CONFIG 12 HYBRID)
        * controllerEfficiency DEFAULT_CONFIG
      < inverterInput (calculateSystemState 0 500 1080 DEFAULT_CONFIG 12 HYBRID)
   \<and> powerAtController (calculateSystemState 0 500 1080 DEFAULT_CONFIG 12 HYBRID)
        * controllerEfficiency DEFAULT_CONFIG
      \<le> maxChargePowerOf DEFAULT_CONFIG
   \<and> 0 < inverterEfficiency DEFAULT_CONFIG \<and> 0 < maxChargePowerOf DEFAULT_CONFIG
   \<and> 0 \<le> controllerEfficiency DEFAULT_CONFIG
   \<and> inverterDrawFromBattery (finalLocals 0 500 1080 DEFAULT_CONFIG 12 HYBRID) = 0
   \<and> gridImport (calculateSystemState 0 500 1080 DEFAULT_CONFIG 12 HYBRID) = 950
   \<and> 0 < netBatteryFlow (calculateSystemState 0 500 1080 DEFAULT_CONFIG 12 HYBRID)
   \<and> batteryPercent
        (calculateSystemState 0.05 1000 1080 (DEFAULT_CONFIG \<lparr> numPanels := 100 \<rparr>) 12 HYBRID)
      = 15
   \<and> SystemState_v1.sunIntensity
        (calculateSystemState 0.05 1000 1080 (DEFAULT_CONFIG \<lparr> numPanels := 100 \<rparr>) 12 HYBRID)
      = 0.05
   \<and> powerAtController
        (calculateSystemState 0.05 1000 1080 (DEFAULT_CONFIG \<lparr> numPanels := 100 \<rparr>) 12 HYBRID)
        * controllerEfficiency (DEFAULT_CONFIG \<lparr> numPanels := 100 \<rparr>)
      < inverterInput
          (calculateSystemState 0.05 1000 1080 (DEFAULT_CONFIG \<lparr> numPanels := 100 \<rparr>) 12 HYBRID)
   \<and> maxChargePowerOf (DEFAULT_CONFIG \<lparr> numPanels := 100 \<rparr>)
      < powerAtController
          (calculateSystemState 0.05 1000 1080 (DEFAULT_CONFIG \<lparr> numPanels := 100 \<rparr>) 12 HYBRID)
        * controllerEfficiency (DEFAULT_CONFIG \<lparr> numPanels := 100 \<rparr>)
   \<and> 0 < netBatteryFlow
        (calculateSystemState 0.05 1000 1080 (DEFAULT_CONFIG \<lparr> numPanels := 100 \<rparr>) 12 HYBRID)"
proof -
  have eff: "inverterEfficiency DEFAULT_CONFIG = 0.8"
    by (simp add: DEFAULT_CONFIG_def)
  have ceff: "controllerEfficiency DEFAULT_CONFIG = 0.9"
    by (simp add: DEFAULT_CONFIG_def)
  have mcp: "maxChargePowerOf DEFAULT_CONFIG = 360"
    by (simp add: maxChargePowerOf_def DEFAULT_CONFIG_def)
  have big: "inverterEfficiency (DEFAULT_CONFIG \<lparr> numPanels := 100 \<rparr>) = 0.8
      \<and> controllerEfficiency (DEFAULT_CONFIG \<lparr> numPanels := 100 \<rparr>) = 0.9
      \<and> maxChargePowerOf (DEFAULT_CONFIG \<lparr> numPanels := 100 \<rparr>) = 360"
    by (simp add: maxChargePowerOf_def DEFAULT_CONFIG_def)
  have a1: "batteryPercent (calculateSystemState 0 500 1800 DEFAULT_CONFIG 12 HYBRID) = 25"
    by (simp add: css_batteryPercent batteryPercentOf_def maxWhOf_def DEFAULT_CONFIG_def)
  have a2: "powerAtController (calculateSystemState 0 500 1800 DEFAULT_CONFIG 12 HYBRID) = 0
      \<and> inverterInput (calculateSystemState 0 500 1800 DEFAULT_CONFIG 12 HYBRID) = 625"
    by (simp add: css_powerAtController css_inverterInput eval_defs)
  have b1: "batteryPercent (calculateSystemState 0 500 1080 DEFAULT_CONFIG 12 HYBRID) = 15"
    by (simp add: css_batteryPercent batteryPercentOf_def maxWhOf_def DEFAULT_CONFIG_def)
  have b2: "powerAtController (calculateSystemState 0 500 1080 DEFAULT_CONFIG 12 HYBRID) = 0
      \<and> inverterInput (calculateSystemState 0 500 1080 DEFAULT_CONFIG 12 HYBRID) = 625
      \<and> SystemState_v1.sunIntensity (calculateSystemState 0 500 1080 DEFAULT_CONFIG 12 HYBRID) = 0"
    by (simp add: css_powerAtController css_inverterInput css_sunIntensity eval_defs)
  have c1: "batteryPercent
        (calculateSystemState 0.05 1000 1080 (DEFAULT_CONFIG \<lparr> numPanels := 100 \<rparr>) 12 HYBRID)
      = 15"
    by (simp add: css_batteryPercent batteryPercentOf_def maxWhOf_def DEFAULT_CONFIG_def)
  have c2: "powerAtController
        (calculateSystemState 0.05 1000 1080 (DEFAULT_CONFIG \<lparr> numPanels := 100 \<rparr>) 12 HYBRID)
        = 3742420 / 3125
      \<and> inverterInput
          (calculateSystemState 0.05 1000 1080 (DEFAULT_CONFIG \<lparr> numPanels := 100 \<rparr>) 12 HYBRID)
        = 1250
      \<and> SystemState_v1.sunIntensity
          (calculateSystemState 0.05 1000 1080 (DEFAULT_CONFIG \<lparr> numPanels := 100 \<rparr>) 12 HYBRID)
        = 0.05"
    by (simp add: css_powerAtController css_inverterInput css_sunIntensity eval_defs)
  have h1: "batteryPercent (calculateSystemState 0 500 1800 DEFAULT_CONFIG 12 HYBRID) \<le> 30"
    using a1 by simp
  have h2: "powerAtController (calculateSystemState 0 500 1800 DEFAULT_CONFIG 12 HYBRID)
        * controllerEfficiency DEFAULT_CONFIG
      < inverterInput (calculateSystemState 0 500 1800 DEFAULT_CONFIG 12 HYBRID)"
    using a2 by simp
  have k1: "batteryPercent (calculateSystemState 0 500 1080 DEFAULT_CONFIG 12 HYBRID) \<le> 30"
    using b1 by simp
  have k2: "powerAtController (calculateSystemState 0 500 1080 DEFAULT_CONFIG 12 HYBRID)
        * controllerEfficiency DEFAULT_CONFIG
      < inverterInput (calculateSystemState 0 500 1080 DEFAULT_CONFIG 12 HYBRID)"
    using b2 by simp
  have m1: "batteryPercent
        (calculateSystemState 0.05 1000 1080 (DEFAULT_CONFIG \<lparr> numPanels := 100 \<rparr>) 12 HYBRID)
      \<le> 30"
    using c1 by simp
  have m2: "powerAtController
        (calculateSystemState 0.05 1000 1080 (DEFAULT_CONFIG \<lparr> numPanels := 100 \<rparr>) 12 HYBRID)
        * controllerEfficiency (DEFAULT_CONFIG \<lparr> numPanels := 100 \<rparr>)
      < inverterInput
          (calculateSystemState 0.05 1000 1080 (DEFAULT_CONFIG \<lparr> numPanels := 100 \<rparr>) 12 HYBRID)"
    using c2 by (simp add: big)
  show ?thesis
    using a1 a2 b1 b2 c1 c2 hybrid_grid_fallback [OF h1 h2] hybrid_grid_fallback [OF k1 k2]
      hybrid_grid_fallback [OF m1 m2]
    by (simp add: eff ceff mcp big)
qed

text \<open>
  Without the bound on DC-bus solar the statements about \<open>gridImport\<close> and
  \<open>inverterDrawFromBattery\<close> fail, in both cases. With the default configuration at noon,
  full sun, a 1000 W load and the battery at 25 %, solar reaches the DC bus with more than
  the maximum charge power; the controller block routes the excess to the inverter for
  export and the netting block subtracts that export from the import. With 100 panels, sun
  intensity 0.05 and the battery at 15 % the same happens on the emergency path.
\<close>

theorem hybrid_grid_fallback_counterexample:
  "batteryPercent (calculateSystemState 1 1000 1800 DEFAULT_CONFIG 12 HYBRID) = 25
   \<and> powerAtController (calculateSystemState 1 1000 1800 DEFAULT_CONFIG 12 HYBRID)
        * controllerEfficiency DEFAULT_CONFIG
      < inverterInput (calculateSystemState 1 1000 1800 DEFAULT_CONFIG 12 HYBRID)
   \<and> gridImport (calculateSystemState 1 1000 1800 DEFAULT_CONFIG 12 HYBRID) = 364859152 / 390625
   \<and> gridImport (calculateSystemState 1 1000 1800 DEFAULT_CONFIG 12 HYBRID) \<noteq> 1000
   \<and> inverterDrawFromBattery (finalLocals 1 1000 1800 DEFAULT_CONFIG 12 HYBRID) = 6441462 / 78125
   \<and> inverterDrawFromBattery (finalLocals 1 1000 1800 DEFAULT_CONFIG 12 HYBRID) \<noteq> 0
   \<and> batteryPercent
        (calculateSystemState 0.05 1000 1080 (DEFAULT_CONFIG \<lparr> numPanels := 100 \<rparr>) 12 HYBRID)
      = 15
   \<and> SystemState_v1.sunIntensity
        (calculateSystemState 0.05 1000 1080 (DEFAULT_CONFIG \<lparr> numPanels := 100 \<rparr>) 12 HYBRID)
      = 0.05
   \<and> powerAtController
        (calculateSystemState 0.05 1000 1080 (DEFAULT_CONFIG \<lparr> numPanels := 100 \<rparr>) 12 HYBRID)
        * controllerEfficiency (DEFAULT_CONFIG \<lparr> numPanels := 100 \<rparr>)
      < inverterInput
          (calculateSystemState 0.05 1000 1080 (DEFAULT_CONFIG \<lparr> numPanels := 100 \<rparr>) 12 HYBRID)
   \<and> gridImport
        (calculateSystemState 0.05 1000 1080 (DEFAULT_CONFIG \<lparr> numPanels := 100 \<rparr>) 12 HYBRID)
      = 13683538 / 15625
   \<and> 1000 + maxChargePowerOf (DEFAULT_CONFIG \<lparr> numPanels := 100 \<rparr>)
             / inverterEfficiency (DEFAULT_CONFIG \<lparr> numPanels := 100 \<rparr>) = 1450
   \<and> inverterDrawFromBattery
        (finalLocals 0.05 1000 1080 (DEFAULT_CONFIG \<lparr> numPanels := 100 \<rparr>) 12 HYBRID)
      = 2243178 / 3125"
  by (simp add: css_batteryPercent css_powerAtController css_inverterInput css_sunIntensity
        css_gridImport eval_defs)

subsection \<open>Grid netting\<close>

lemma preNetting_nonneg:
  assumes "0 \<le> al" and "0 < inverterEfficiency cfg" and "0 \<le> maxChargePowerOf cfg"
  shows "0 \<le> Locals.gridImport (preNettingLocals si al lvl cfg tod m)
       \<and> 0 \<le> Locals.gridExport (preNettingLocals si al lvl cfg tod m)"
  using assms
  by (cases m)
     (auto simp add: preNettingLocals_def preClampLocals_def fullBatteryClamp_def netFlow_def
        controllerOutput_def routeLoad_def initLocals_def Let_def)

text \<open>
  Claim C1. For every mode and every input of the engine's domain (a non-negative AC load,
  a positive inverter efficiency and a non-negative maximum charge power, as every
  validated configuration has), the returned snapshot never has both \<open>gridImport\<close> and
  \<open>gridExport\<close> non-zero. The reported pair is the result of the netting block applied to
  the pair that the earlier blocks left, nothing adjusts it afterwards, and when both are
  positive before the netting the larger absorbs the smaller and the smaller is set to
  exactly zero.
\<close>

theorem grid_netting:
  assumes "0 \<le> al" and "0 < inverterEfficiency cfg" and "0 \<le> maxChargePowerOf cfg"
  shows "\<not> (gridImport (calculateSystemState si al lvl cfg tod m) \<noteq> 0
            \<and> gridExport (calculateSystemState si al lvl cfg tod m) \<noteq> 0)
     \<and> gridImport (calculateSystemState si al lvl cfg tod m)
         = Locals.gridImport (netGrid (preNettingLocals si al lvl cfg tod m))
     \<and> gridExport (calculateSystemState si al lvl cfg tod m)
         = Locals.gridExport (netGrid (preNettingLocals si al lvl cfg tod m))
     \<and> (0 < Locals.gridImport (preNettingLocals si al lvl cfg tod m)
          \<and> 0 < Locals.gridExport (preNettingLocals si al lvl cfg tod m)
          \<and> Locals.gridExport (preNettingLocals si al lvl cfg tod m)
              \<le> Locals.gridImport (preNettingLocals si al lvl cfg tod m)
        \<longrightarrow> gridImport (calculateSystemState si al lvl cfg tod m)
              = Locals.gridImport (preNettingLocals si al lvl cfg tod m)
                - Locals.gridExport (preNettingLocals si al lvl cfg tod m)
            \<and> gridExport (calculateSystemState si al lvl cfg tod m) = 0)
     \<and> (0 < Locals.gridImport (preNettingLocals si al lvl cfg tod m)
          \<and> 0 < Locals.gridExport (preNettingLocals si al lvl cfg tod m)
          \<and> Locals.gridImport (preNettingLocals si al lvl cfg tod m)
              < Locals.gridExport (preNettingLocals si al lvl cfg tod m)
        \<longrightarrow> gridExport (calculateSystemState si al lvl cfg tod m)
              = Locals.gridExport (preNettingLocals si al lvl cfg tod m)
                - Locals.gridImport (preNettingLocals si al lvl cfg tod m)
            \<and> gridImport (calculateSystemState si al lvl cfg tod m) = 0)"
proof -
  have nn: "0 \<le> Locals.gridImport (preNettingLocals si al lvl cfg tod m)
          \<and> 0 \<le> Locals.gridExport (preNettingLocals si al lvl cfg tod m)"
    using assms by (rule preNetting_nonneg)
  then show ?thesis
    by (auto simp add: css_gridImport css_gridExport finalLocals_def netGrid_def)
qed

theorem grid_netting_witness:
  "(0::real) \<le> 1000 \<and> 0 < inverterEfficiency DEFAULT_CONFIG \<and> 0 \<le> maxChargePowerOf DEFAULT_CONFIG
   \<and> 0 < Locals.gridExport (preNettingLocals 1 1000 1800 DEFAULT_CONFIG 12 HYBRID)
   \<and> Locals.gridExport (preNettingLocals 1 1000 1800 DEFAULT_CONFIG 12 HYBRID)
        \<le> Locals.gridImport (preNettingLocals 1 1000 1800 DEFAULT_CONFIG 12 HYBRID)
   \<and> Locals.gridImport (preNettingLocals 1 1000 1800 DEFAULT_CONFIG 12 HYBRID) = 1000
   \<and> gridImport (calculateSystemState 1 1000 1800 DEFAULT_CONFIG 12 HYBRID)
        = 1000 - Locals.gridExport (preNettingLocals 1 1000 1800 DEFAULT_CONFIG 12 HYBRID)
   \<and> gridExport (calculateSystemState 1 1000 1800 DEFAULT_CONFIG 12 HYBRID) = 0"
proof -
  have h1: "(0::real) \<le> 1000" by simp
  have h2: "0 < inverterEfficiency DEFAULT_CONFIG" by (simp add: DEFAULT_CONFIG_def)
  have h3: "0 \<le> maxChargePowerOf DEFAULT_CONFIG"
    by (simp add: maxChargePowerOf_def DEFAULT_CONFIG_def)
  have pre: "Locals.gridImport (preNettingLocals 1 1000 1800 DEFAULT_CONFIG 12 HYBRID) = 1000
     \<and> Locals.gridExport (preNettingLocals 1 1000 1800 DEFAULT_CONFIG 12 HYBRID) = 25765848 / 390625"
    by (simp add: eval_defs)
  show ?thesis
    using h2 h3 pre
      grid_netting [OF h1 h2 h3, where si = 1 and lvl = 1800 and tod = 12 and m = HYBRID]
    by simp
qed

subsection \<open>Charge ceiling\<close>

text \<open>
  On every path that does not charge from the grid the net battery flow stays at or below
  the maximum charge power: the controller block caps its output at the charge limit plus
  the inverter draw (OFF_GRID) or exports what exceeds it (HYBRID).
\<close>

lemma controller_then_netFlow_le:
  assumes "gridChargingPower l = 0" and "0 \<le> maxChargePowerOf cfg"
  shows "Locals.netBatteryFlow (netFlow m cfg (controllerOutput m cfg pac l))
           \<le> maxChargePowerOf cfg"
  using assms
  by (cases m) (auto simp add: netFlow_def controllerOutput_def Let_def)

lemma controllerOutput_gridChargingPower:
  "gridChargingPower (controllerOutput m cfg pac l) = gridChargingPower l"
  by (simp add: controllerOutput_def Let_def)

lemma netFlow_gridChargingPower:
  "gridChargingPower (netFlow m cfg l) = gridChargingPower l"
  by (simp add: netFlow_def Let_def)

lemma fullBatteryClamp_gridChargingPower:
  "gridChargingPower (fullBatteryClamp m cfg full l) = gridChargingPower l"
  by (simp add: fullBatteryClamp_def Let_def)

lemma netGrid_keeps:
  "gridChargingPower (netGrid l) = gridChargingPower l
   \<and> Locals.netBatteryFlow (netGrid l) = Locals.netBatteryFlow l"
  by (simp add: netGrid_def)

lemma fullBatteryClamp_netBatteryFlow_le:
  "Locals.netBatteryFlow (fullBatteryClamp m cfg full l) \<le> max 0 (Locals.netBatteryFlow l)"
  by (simp add: fullBatteryClamp_def Let_def)

lemma charge_ceiling_without_grid_charge:
  assumes "0 \<le> maxChargePowerOf cfg"
      and "gridChargingPower (finalLocals si al lvl cfg tod m) = 0"
  shows "netBatteryFlow (calculateSystemState si al lvl cfg tod m) \<le> maxChargePowerOf cfg"
proof -
  let ?r = "routeLoad m cfg al (effectiveIntensityOf si tod)
              (solarInputOf cfg (effectiveIntensityOf si tod))
              (powerAtControllerOf cfg (solarInputOf cfg (effectiveIntensityOf si tod)))
              (batteryPercentOf cfg lvl)"
  let ?pac = "powerAtControllerOf cfg (solarInputOf cfg (effectiveIntensityOf si tod))"
  have pre: "preClampLocals si al lvl cfg tod m = netFlow m cfg (controllerOutput m cfg ?pac ?r)"
    by (simp add: preClampLocals_def Let_def)
  from assms(2) have "gridChargingPower ?r = 0"
    by (simp add: finalLocals_def preNettingLocals_def pre netGrid_keeps
          fullBatteryClamp_gridChargingPower netFlow_gridChargingPower
          controllerOutput_gridChargingPower Let_def)
  then have a: "Locals.netBatteryFlow (preClampLocals si al lvl cfg tod m)
               \<le> maxChargePowerOf cfg"
    unfolding pre using assms(1) by (rule controller_then_netFlow_le)
  have "Locals.netBatteryFlow (finalLocals si al lvl cfg tod m)
          \<le> max 0 (Locals.netBatteryFlow (preClampLocals si al lvl cfg tod m))"
    by (simp add: finalLocals_def preNettingLocals_def netGrid_keeps
          fullBatteryClamp_netBatteryFlow_le Let_def)
  with a assms(1) show ?thesis
    by (simp add: css_netBatteryFlow)
qed

text \<open>
  Claim C4. Under a validated configuration the reported \<open>netBatteryFlow\<close> never exceeds
  maxChargePower = (batteryCapacityAh / batteryCRating) * batteryVoltage. The HYBRID
  emergency-charge path does not keep this ceiling: it adds the grid charge at the full
  maximum charge power on top of whatever the controller delivers. With the default
  configuration at noon, sun intensity 0.05, a 500 W load and the battery at 15 %, the net
  battery flow is about 382.48 W against a ceiling of 360 W.
\<close>

theorem charge_ceiling_exceeded:
  "netBatteryFlow (calculateSystemState 0.05 500 1080 DEFAULT_CONFIG 12 HYBRID)
     = 2988133803 / 7812500
   \<and> maxChargePowerOf DEFAULT_CONFIG = 360
   \<and> netBatteryFlow (calculateSystemState 0.05 500 1080 DEFAULT_CONFIG 12 HYBRID)
       > maxChargePowerOf DEFAULT_CONFIG"
  by (simp add: css_netBatteryFlow eval_defs)

section \<open>Energy integrator\<close>

lemma integrateLevel_bounds:
  assumes "0 \<le> maxWhOf cfg"
  shows "0 \<le> integrateLevel si al cfg tod m dt lvl
       \<and> integrateLevel si al cfg tod m dt lvl \<le> maxWhOf cfg"
  using assms by (simp add: integrateLevel_def maxWhOf_def Let_def)

lemma edit_config: "config (reclampEffect (config s) (setConfig c s)) = c"
  by (simp add: reclampEffect_def setConfig_def Let_def)

lemma edit_level:
  "batteryLevel (reclampEffect (config s) (setConfig c s)) =
     (if batteryCapacityAh c \<noteq> batteryCapacityAh (config s)
         \<or> batteryVoltage c \<noteq> batteryVoltage (config s)
      then min (batteryLevel s) (maxWhOf c) else batteryLevel s)"
  by (simp add: reclampEffect_def setConfig_def maxWhOf_def Let_def)

lemma edit_level_le:
  assumes "batteryLevel s \<le> maxWhOf (config s)"
  shows "batteryLevel (reclampEffect (config s) (setConfig c s)) \<le> maxWhOf c"
  using assms by (auto simp add: edit_level maxWhOf_def)

lemma handle_energy_bounds:
  assumes "0 \<le> batteryLevel s" and "batteryLevel s \<le> maxWhOf (config s)"
      and "\<And>c. e = SetConfig c \<Longrightarrow> 0 \<le> maxWhOf c"
  shows "0 \<le> batteryLevel (handle s e)
       \<and> batteryLevel (handle s e) \<le> maxWhOf (config (handle s e))"
proof (cases e)
  case (Interval now)
  from assms(1,2) have "0 \<le> maxWhOf (config s)" by simp
  then show ?thesis
    using Interval integrateLevel_bounds [of "config s"]
    by (simp add: intervalTick_def Let_def)
next
  case (SetConfig c)
  with assms(3) have "0 \<le> maxWhOf c" by simp
  with assms(1,2) SetConfig show ?thesis
    using edit_level_le [OF assms(2), of c]
    by (auto simp add: edit_config edit_level)
qed (use assms in simp_all)

lemma run_energy_bounds:
  assumes "0 \<le> batteryLevel s" and "batteryLevel s \<le> maxWhOf (config s)"
      and "\<forall>c. SetConfig c \<in> set evs \<longrightarrow> 0 \<le> maxWhOf c"
  shows "0 \<le> batteryLevel (run s evs)
       \<and> batteryLevel (run s evs) \<le> maxWhOf (config (run s evs))"
  using assms
proof (induction evs arbitrary: s)
  case Nil
  then show ?case by (simp add: run_def)
next
  case (Cons e evs)
  have step: "0 \<le> batteryLevel (handle s e)
      \<and> batteryLevel (handle s e) \<le> maxWhOf (config (handle s e))"
    using Cons.prems by (intro handle_energy_bounds) auto
  have "0 \<le> batteryLevel (run (handle s e) evs)
      \<and> batteryLevel (run (handle s e) evs) \<le> maxWhOf (config (run (handle s e) evs))"
    using step Cons.prems(3) by (intro Cons.IH) auto
  then show ?case by (simp add: run_def)
qed

lemma run_config_without_edit:
  "(\<forall>e \<in> set evs. \<forall>c. e \<noteq> SetConfig c) \<longrightarrow> config (run s evs) = config s"
proof (induction evs arbitrary: s)
  case Nil
  show ?case by (simp add: run_def)
next
  case (Cons e evs)
  have "(\<forall>c. e \<noteq> SetConfig c) \<longrightarrow> config (handle s e) = config s"
    by (cases e) (simp_all add: intervalTick_def Let_def)
  with Cons.IH [of "handle s e"] show ?case by (simp add: run_def)
qed

lemma percent_bounds:
  assumes "0 \<le> lvl" and "lvl \<le> maxWhOf cfg" and "maxWhOf cfg \<noteq> 0"
  shows "0 \<le> batteryPercentOf cfg lvl \<and> batteryPercentOf cfg lvl \<le> 100"
proof -
  from assms have "0 < maxWhOf cfg" by simp
  with assms show ?thesis
    by (simp add: batteryPercentOf_def divide_le_eq)
qed

lemma currentSystemState_percent:
  "batteryPercent (currentSystemState s) = batteryPercentOf (config s) (batteryLevel s)"
  by (simp add: currentSystemState_def css_batteryPercent)

lemma edit_percent:
  assumes "0 \<le> batteryLevel s" and "batteryLevel s \<le> maxWhOf (config s)"
      and "maxWhOf c \<noteq> 0"
  shows "batteryPercentOf c (batteryLevel (reclampEffect (config s) (setConfig c s))) \<le> 100"
proof (cases "0 < maxWhOf c")
  case True
  have "batteryLevel (reclampEffect (config s) (setConfig c s)) \<le> maxWhOf c"
    using assms(2) by (rule edit_level_le)
  with True show ?thesis by (simp add: batteryPercentOf_def divide_le_eq)
next
  case False
  with assms(3) have neg: "maxWhOf c < 0" by simp
  with assms(1,2) have "batteryLevel (reclampEffect (config s) (setConfig c s)) = maxWhOf c"
    by (auto simp add: edit_level maxWhOf_def)
  with neg show ?thesis by (simp add: batteryPercentOf_def)
qed

text \<open>
  Claim C6, as the host has it. Starting from a stored battery energy in
  [0, batteryCapacityAh * batteryVoltage], the stored energy after any sequence of
  integrator steps (with any elapsed times, and any changes of sun, load and mode in
  between) remains in that interval, so the battery percentage stays in [0, 100]; the same
  holds when edits of the configuration to a non-negative capacity * voltage are
  interleaved. When the capacity or the voltage of the configuration is edited, the
  stored energy is re-clamped by the effect that runs after the render following the
  edit: that render still sees the stored energy as it was, and from the effect on the
  stored energy is the minimum of its value and the new maximum and the percentage does
  not exceed 100. The percentage is a quotient by capacity * voltage and is stated where
  that is not zero.
\<close>

theorem battery_energy_bounds:
  assumes "0 \<le> batteryLevel s" and "batteryLevel s \<le> maxWhOf (config s)"
      and "\<forall>c. SetConfig c \<in> set evs \<longrightarrow> 0 \<le> maxWhOf c"
  shows "0 \<le> batteryLevel (run s evs)
     \<and> batteryLevel (run s evs) \<le> maxWhOf (config (run s evs))
     \<and> (maxWhOf (config (run s evs)) \<noteq> 0 \<longrightarrow>
          0 \<le> batteryPercent (currentSystemState (run s evs))
          \<and> batteryPercent (currentSystemState (run s evs)) \<le> 100)
     \<and> ((\<forall>e \<in> set evs. \<forall>c. e \<noteq> SetConfig c) \<longrightarrow> config (run s evs) = config s)
     \<and> batteryLevel (setConfig c s) = batteryLevel s
     \<and> (batteryCapacityAh c \<noteq> batteryCapacityAh (config s)
          \<or> batteryVoltage c \<noteq> batteryVoltage (config s)
        \<longrightarrow> batteryLevel (handle s (SetConfig c)) = min (batteryLevel s) (maxWhOf c))
     \<and> batteryLevel (handle s (SetConfig c)) \<le> maxWhOf c
     \<and> (maxWhOf c \<noteq> 0 \<longrightarrow>
          batteryPercent (currentSystemState (handle s (SetConfig c))) \<le> 100)"
proof -
  have b: "0 \<le> batteryLevel (run s evs)
      \<and> batteryLevel (run s evs) \<le> maxWhOf (config (run s evs))"
    using assms by (rule run_energy_bounds)
  have pct: "maxWhOf (config (run s evs)) \<noteq> 0 \<longrightarrow>
          0 \<le> batteryPercent (currentSystemState (run s evs))
          \<and> batteryPercent (currentSystemState (run s evs)) \<le> 100"
    using b percent_bounds [of "batteryLevel (run s evs)" "config (run s evs)"]
    by (simp add: currentSystemState_percent)
  have kept: "batteryLevel (setConfig c s) = batteryLevel s"
    by (simp add: setConfig_def)
  have edit: "batteryCapacityAh c \<noteq> batteryCapacityAh (config s)
          \<or> batteryVoltage c \<noteq> batteryVoltage (config s)
        \<longrightarrow> batteryLevel (handle s (SetConfig c)) = min (batteryLevel s) (maxWhOf c)"
    by (simp add: edit_level)
  have le: "batteryLevel (handle s (SetConfig c)) \<le> maxWhOf c"
    using edit_level_le [OF assms(2), of c] by simp
  have pct2: "maxWhOf c \<noteq> 0 \<longrightarrow>
          batteryPercent (currentSystemState (handle s (SetConfig c))) \<le> 100"
    using edit_percent [OF assms(1,2), of c]
    by (simp add: currentSystemState_percent edit_config)
  show ?thesis
    using b pct run_config_without_edit [of evs s] kept edit le pct2 by blast
qed

theorem battery_energy_bounds_witness:
  "0 \<le> batteryLevel (initialApp 0)
   \<and> batteryLevel (initialApp 0) \<le> maxWhOf (config (initialApp 0))
   \<and> 0 \<le> batteryLevel (run (initialApp 0)
            [Interval 100, SetConfig (DEFAULT_CONFIG \<lparr> batteryCapacityAh := 100 \<rparr>), Interval 250])
   \<and> batteryLevel (run (initialApp 0)
            [Interval 100, SetConfig (DEFAULT_CONFIG \<lparr> batteryCapacityAh := 100 \<rparr>), Interval 250])
       \<le> 2400
   \<and> batteryPercent (currentSystemState (run (initialApp 0)
            [Interval 100, SetConfig (DEFAULT_CONFIG \<lparr> batteryCapacityAh := 100 \<rparr>), Interval 250]))
       \<le> 100
   \<and> config (run (initialApp 0) [Interval 100, Interval 250]) = DEFAULT_CONFIG
   \<and> batteryLevel
        (handle (initialApp 0) (SetConfig (DEFAULT_CONFIG \<lparr> batteryCapacityAh := 100 \<rparr>)))
       = 2400
   \<and> batteryPercent (currentSystemState
        (handle (initialApp 0) (SetConfig (DEFAULT_CONFIG \<lparr> batteryCapacityAh := 100 \<rparr>))))
       \<le> 100"
proof -
  have h1: "0 \<le> batteryLevel (initialApp 0)"
    by (simp add: initialApp_def DEFAULT_CONFIG_def)
  have h2: "batteryLevel (initialApp 0) \<le> maxWhOf (config (initialApp 0))"
    by (simp add: initialApp_def maxWhOf_def DEFAULT_CONFIG_def)
  have h3: "\<forall>c. SetConfig c
              \<in> set [Interval 100, SetConfig (DEFAULT_CONFIG \<lparr> batteryCapacityAh := 100 \<rparr>),
                     Interval 250]
            \<longrightarrow> 0 \<le> maxWhOf c"
    by (simp add: maxWhOf_def DEFAULT_CONFIG_def)
  have h4: "\<forall>c. SetConfig c \<in> set [Interval 100, Interval 250] \<longrightarrow> 0 \<le> maxWhOf c"
    by simp
  have cfg: "config (run (initialApp 0)
            [Interval 100, SetConfig (DEFAULT_CONFIG \<lparr> batteryCapacityAh := 100 \<rparr>), Interval 250])
          = DEFAULT_CONFIG \<lparr> batteryCapacityAh := 100 \<rparr>"
    by (simp add: run_def intervalTick_def reclampEffect_def setConfig_def Let_def)
  have mx: "maxWhOf (DEFAULT_CONFIG \<lparr> batteryCapacityAh := 100 \<rparr>) = 2400"
    by (simp add: maxWhOf_def DEFAULT_CONFIG_def)
  have init: "batteryLevel (initialApp 0) = 3600 \<and> config (initialApp 0) = DEFAULT_CONFIG"
    by (simp add: initialApp_def DEFAULT_CONFIG_def)
  have cap: "batteryCapacityAh (DEFAULT_CONFIG \<lparr> batteryCapacityAh := 100 \<rparr>) = 100
      \<and> batteryCapacityAh DEFAULT_CONFIG = 300"
    by (simp add: DEFAULT_CONFIG_def)
  show ?thesis
    using h1 h2 init cap
      battery_energy_bounds [OF h1 h2 h3,
        where c = "DEFAULT_CONFIG \<lparr> batteryCapacityAh := 100 \<rparr>"]
      battery_energy_bounds [OF h1 h2 h4,
        where c = "DEFAULT_CONFIG \<lparr> batteryCapacityAh := 100 \<rparr>"]
    by (simp add: cfg mx)
qed

text \<open>
  The re-clamp is not immediate. Lowering the capacity from 300 Ah to 100 Ah with 3600 Wh
  stored, the render between the edit and the effect computes its snapshot from the new
  configuration and the 3600 Wh, and reports 150 %; the render after the effect reports
  100 %.
\<close>

theorem percent_between_edit_and_effect:
  "batteryLevel (initialApp 0) = 3600
   \<and> maxWhOf (config (initialApp 0)) = 7200
   \<and> maxWhOf (DEFAULT_CONFIG \<lparr> batteryCapacityAh := 100 \<rparr>) = 2400
   \<and> batteryLevel (setConfig (DEFAULT_CONFIG \<lparr> batteryCapacityAh := 100 \<rparr>) (initialApp 0))
       = 3600
   \<and> batteryPercent
        (currentSystemState
          (setConfig (DEFAULT_CONFIG \<lparr> batteryCapacityAh := 100 \<rparr>) (initialApp 0)))
       = 150
   \<and> map batteryPercent
        (editRenders (DEFAULT_CONFIG \<lparr> batteryCapacityAh := 100 \<rparr>) (initialApp 0))
       = [150, 100]"
  by (simp add: editRenders_def currentSystemState_percent setConfig_def reclampEffect_def
        initialApp_def batteryPercentOf_def maxWhOf_def DEFAULT_CONFIG_def Let_def)

text \<open>
  Claim C7, as the integrator has it. For every stored battery energy in [0, maxWh], a
  tick whose elapsed time is zero leaves the stored energy unchanged. A negative elapsed
  time is not guarded: the tick integrates it like any other, so the energy is unchanged
  only if the net battery flow is 0 (or the clamp absorbs the change).
\<close>

theorem zero_elapsed_noop:
  assumes "0 \<le> batteryLevel s" and "batteryLevel s \<le> maxWhOf (config s)"
      and "now \<le> lastTimeRef s"
      and "now = lastTimeRef s
           \<or> netBatteryFlow (calculateSystemState (AppState.sunIntensity s) (AppState.acLoad s)
                (batteryLevel s) (config s) (timeOfDay s) (systemMode s)) = 0"
  shows "batteryLevel (intervalTick now s) = batteryLevel s"
  using assms
  by (auto simp add: intervalTick_def integrateLevel_def maxWhOf_def Let_def)

theorem zero_elapsed_noop_witness:
  "0 \<le> batteryLevel (initialApp 1000)
   \<and> batteryLevel (initialApp 1000) \<le> maxWhOf (config (initialApp 1000))
   \<and> (1000::int) = lastTimeRef (initialApp 1000)
   \<and> batteryLevel (intervalTick 1000 (initialApp 1000)) = batteryLevel (initialApp 1000)
   \<and> (0::int) < lastTimeRef (initialApp 1000 \<lparr> systemMode := ON_GRID \<rparr>)
   \<and> netBatteryFlow (calculateSystemState 0 100 3600 DEFAULT_CONFIG 9 ON_GRID) = 0
   \<and> batteryLevel (intervalTick 0 (initialApp 1000 \<lparr> systemMode := ON_GRID \<rparr>)) = 3600"
proof -
  have h1: "0 \<le> batteryLevel (initialApp 1000)"
    by (simp add: initialApp_def DEFAULT_CONFIG_def)
  have h2: "batteryLevel (initialApp 1000) \<le> maxWhOf (config (initialApp 1000))"
    by (simp add: initialApp_def maxWhOf_def DEFAULT_CONFIG_def)
  have h3: "1000 \<le> lastTimeRef (initialApp 1000)"
    by (simp add: initialApp_def)
  have h4: "1000 = lastTimeRef (initialApp 1000)
           \<or> netBatteryFlow (calculateSystemState (AppState.sunIntensity (initialApp 1000))
                (AppState.acLoad (initialApp 1000)) (batteryLevel (initialApp 1000))
                (config (initialApp 1000)) (timeOfDay (initialApp 1000))
                (systemMode (initialApp 1000))) = 0"
    by (simp add: initialApp_def)
  have k1: "0 \<le> batteryLevel (initialApp 1000 \<lparr> systemMode := ON_GRID \<rparr>)"
    by (simp add: initialApp_def DEFAULT_CONFIG_def)
  have k2: "batteryLevel (initialApp 1000 \<lparr> systemMode := ON_GRID \<rparr>)
              \<le> maxWhOf (config (initialApp 1000 \<lparr> systemMode := ON_GRID \<rparr>))"
    by (simp add: initialApp_def maxWhOf_def DEFAULT_CONFIG_def)
  have k3: "0 \<le> lastTimeRef (initialApp 1000 \<lparr> systemMode := ON_GRID \<rparr>)"
    by (simp add: initialApp_def)
  have flow: "netBatteryFlow (calculateSystemState 0 100 3600 DEFAULT_CONFIG 9 ON_GRID) = 0"
    by (simp add: css_netBatteryFlow pipeline_defs Let_def)
  have k4: "0 = lastTimeRef (initialApp 1000 \<lparr> systemMode := ON_GRID \<rparr>)
           \<or> netBatteryFlow
                (calculateSystemState
                  (AppState.sunIntensity (initialApp 1000 \<lparr> systemMode := ON_GRID \<rparr>))
                  (AppState.acLoad (initialApp 1000 \<lparr> systemMode := ON_GRID \<rparr>))
                  (batteryLevel (initialApp 1000 \<lparr> systemMode := ON_GRID \<rparr>))
                  (config (initialApp 1000 \<lparr> systemMode := ON_GRID \<rparr>))
                  (timeOfDay (initialApp 1000 \<lparr> systemMode := ON_GRID \<rparr>))
                  (systemMode (initialApp 1000 \<lparr> systemMode := ON_GRID \<rparr>))) = 0"
    using flow by (simp add: initialApp_def DEFAULT_CONFIG_def)
  show ?thesis
    using h1 h2 flow zero_elapsed_noop [OF h1 h2 h3 h4] zero_elapsed_noop [OF k1 k2 k3 k4]
    by (simp add: initialApp_def DEFAULT_CONFIG_def)
qed

text \<open>
  A clock that steps back by one second: in OFF_GRID mode at night with the default
  100 W load the battery discharges at 125 W, and the tick adds 125 * 10 / 3600 Wh to the
  stored 3600 Wh.
\<close>

theorem negative_elapsed_counterexample:
  "batteryLevel (initialApp 1000 \<lparr> systemMode := OFF_GRID \<rparr>) = 3600
   \<and> maxWhOf (config (initialApp 1000 \<lparr> systemMode := OFF_GRID \<rparr>)) = 7200
   \<and> lastTimeRef (initialApp 1000 \<lparr> systemMode := OFF_GRID \<rparr>) = 1000
   \<and> batteryLevel (intervalTick 0 (initialApp 1000 \<lparr> systemMode := OFF_GRID \<rparr>)) = 259225 / 72
   \<and> batteryLevel (intervalTick 0 (initialApp 1000 \<lparr> systemMode := OFF_GRID \<rparr>))
       \<noteq> batteryLevel (initialApp 1000 \<lparr> systemMode := OFF_GRID \<rparr>)"
  by (simp add: initialApp_def intervalTick_def integrateLevel_def css_netBatteryFlow eval_defs)

section \<open>The two revisions of the engine\<close>

lemma finalLocals_on_grid:
  "inverterDrawFromBattery (finalLocals si al lvl cfg tod ON_GRID) = 0
   \<and> gridChargingPower (finalLocals si al lvl cfg tod ON_GRID) = 0
   \<and> Locals.powerToBattery (finalLocals si al lvl cfg tod ON_GRID) = 0
   \<and> effectiveControllerOutput (finalLocals si al lvl cfg tod ON_GRID) = 0
   \<and> Locals.wastedPower (finalLocals si al lvl cfg tod ON_GRID) = 0
   \<and> Locals.netBatteryFlow (finalLocals si al lvl cfg tod ON_GRID) = 0
   \<and> Locals.gridActive (finalLocals si al lvl cfg tod ON_GRID)
   \<and> Locals.gridExport (finalLocals si al lvl cfg tod ON_GRID)
       = (if solarInputOf cfg (effectiveIntensityOf si tod) * inverterEfficiency cfg \<ge> al
          then solarInputOf cfg (effectiveIntensityOf si tod) * inverterEfficiency cfg - al else 0)
   \<and> Locals.gridImport (finalLocals si al lvl cfg tod ON_GRID)
       = (if solarInputOf cfg (effectiveIntensityOf si tod) * inverterEfficiency cfg \<ge> al
          then 0 else al - solarInputOf cfg (effectiveIntensityOf si tod) * inverterEfficiency cfg)"
  by (simp add: pipeline_defs Let_def)

lemma finalLocals_off_grid:
  "inverterDrawFromBattery (finalLocals si al lvl cfg tod OFF_GRID) = al / inverterEfficiency cfg
   \<and> gridChargingPower (finalLocals si al lvl cfg tod OFF_GRID) = 0
   \<and> \<not> Locals.gridActive (finalLocals si al lvl cfg tod OFF_GRID)
   \<and> Locals.gridExport (finalLocals si al lvl cfg tod OFF_GRID) = 0
   \<and> Locals.gridImport (finalLocals si al lvl cfg tod OFF_GRID) = 0"
  by (simp add: pipeline_defs Let_def)

lemma v1_on_grid:
  "calculateSystemState_v1 si al lvl cfg tod ON_GRID =
     \<lparr> SystemState_v1.sunIntensity = effectiveIntensityOf si tod,
       generation = solarInputOf cfg (effectiveIntensityOf si tod),
       panelVoltage = SystemConfig.panelVoltage cfg,
       wireAnalysis =
         legacyWireAnalysis cfg (solarStatsOf cfg (solarInputOf cfg (effectiveIntensityOf si tod))),
       wireStats =
         \<lparr> solarToController = solarStatsOf cfg (solarInputOf cfg (effectiveIntensityOf si tod)),
           controllerToBattery = calcWire 0 (batteryVoltage cfg) 5 (wireGaugeMm2 cfg),
           batteryToInverter = calcWire 0 (batteryVoltage cfg) 5 (wireGaugeMm2 cfg),
           inverterToLoad = calcWire al 230 20 2.5 \<rparr>,
       powerAtController = powerAtControllerOf cfg (solarInputOf cfg (effectiveIntensityOf si tod)),
       powerToBattery = 0,
       SystemState_v1.batteryLevel = lvl,
       batteryPercent = batteryPercentOf cfg lvl,
       SystemState_v1.acLoad = al,
       inverterInput = al / inverterEfficiency cfg,
       netBatteryFlow = 0,
       gridActive = True,
       gridExport =
         (if solarInputOf cfg (effectiveIntensityOf si tod) * inverterEfficiency cfg \<ge> al
          then solarInputOf cfg (effectiveIntensityOf si tod) * inverterEfficiency cfg - al else 0),
       gridImport =
         (if solarInputOf cfg (effectiveIntensityOf si tod) * inverterEfficiency cfg \<ge> al
          then 0 else al - solarInputOf cfg (effectiveIntensityOf si tod) * inverterEfficiency cfg),
       wastedPower = 0 \<rparr>"
  by (simp add: calculateSystemState_v1_def Let_def)

lemma v1_off_grid:
  "gridImport (calculateSystemState_v1 si al lvl cfg tod OFF_GRID) = 0
   \<and> gridExport (calculateSystemState_v1 si al lvl cfg tod OFF_GRID) = 0
   \<and> \<not> gridActive (calculateSystemState_v1 si al lvl cfg tod OFF_GRID)
   \<and> batteryToInverter (wireStats (calculateSystemState_v1 si al lvl cfg tod OFF_GRID))
       = calcWire (al / inverterEfficiency cfg) (batteryVoltage cfg) 5 (wireGaugeMm2 cfg)"
  by (simp add: calculateSystemState_v1_def Let_def split_beta)

lemma css_off_grid_batteryToInverter:
  "batteryToInverter (wireStats (calculateSystemState si al lvl cfg tod OFF_GRID))
     = calcWire (al / inverterEfficiency cfg) (batteryVoltage cfg) 5 (wireGaugeMm2 cfg)"
  by (simp add: calculateSystemState_def Let_def finalLocals_off_grid)

lemma v1_mode_independent:
  "SystemState_v1.sunIntensity (calculateSystemState_v1 si al lvl cfg tod m)
       = effectiveIntensityOf si tod
   \<and> generation (calculateSystemState_v1 si al lvl cfg tod m)
       = solarInputOf cfg (effectiveIntensityOf si tod)
   \<and> panelVoltage (calculateSystemState_v1 si al lvl cfg tod m) = SystemConfig.panelVoltage cfg
   \<and> wireAnalysis (calculateSystemState_v1 si al lvl cfg tod m)
       = legacyWireAnalysis cfg (solarStatsOf cfg (solarInputOf cfg (effectiveIntensityOf si tod)))
   \<and> solarToController (wireStats (calculateSystemState_v1 si al lvl cfg tod m))
       = solarStatsOf cfg (solarInputOf cfg (effectiveIntensityOf si tod))
   \<and> inverterToLoad (wireStats (calculateSystemState_v1 si al lvl cfg tod m))
       = calcWire al 230 20 2.5
   \<and> powerAtController (calculateSystemState_v1 si al lvl cfg tod m)
       = powerAtControllerOf cfg (solarInputOf cfg (effectiveIntensityOf si tod))
   \<and> SystemState_v1.batteryLevel (calculateSystemState_v1 si al lvl cfg tod m) = lvl
   \<and> batteryPercent (calculateSystemState_v1 si al lvl cfg tod m) = batteryPercentOf cfg lvl
   \<and> SystemState_v1.acLoad (calculateSystemState_v1 si al lvl cfg tod m) = al
   \<and> inverterInput (calculateSystemState_v1 si al lvl cfg tod m) = al / inverterEfficiency cfg"
  by (simp add: calculateSystemState_v1_def Let_def split_beta)

lemma css_mode_independent:
  "SystemState_v1.sunIntensity (calculateSystemState si al lvl cfg tod m)
       = effectiveIntensityOf si tod
   \<and> generation (calculateSystemState si al lvl cfg tod m)
       = solarInputOf cfg (effectiveIntensityOf si tod)
   \<and> panelVoltage (calculateSystemState si al lvl cfg tod m) = SystemConfig.panelVoltage cfg
   \<and> wireAnalysis (calculateSystemState si al lvl cfg tod m)
       = legacyWireAnalysis cfg (solarStatsOf cfg (solarInputOf cfg (effectiveIntensityOf si tod)))
   \<and> solarToController (wireStats (calculateSystemState si al lvl cfg tod m))
       = solarStatsOf cfg (solarInputOf cfg (effectiveIntensityOf si tod))
   \<and> inverterToLoad (wireStats (calculateSystemState si al lvl cfg tod m))
       = calcWire al 230 20 2.5
   \<and> powerAtController (calculateSystemState si al lvl cfg tod m)
       = powerAtControllerOf cfg (solarInputOf cfg (effectiveIntensityOf si tod))
   \<and> SystemState_v1.batteryLevel (calculateSystemState si al lvl cfg tod m) = lvl
   \<and> batteryPercent (calculateSystemState si al lvl cfg tod m) = batteryPercentOf cfg lvl
   \<and> SystemState_v1.acLoad (calculateSystemState si al lvl cfg tod m) = al
   \<and> inverterInput (calculateSystemState si al lvl cfg tod m) = al / inverterEfficiency cfg"
  by (simp add: calculateSystemState_def Let_def)

text \<open>
  Claim C10, as the two revisions have it. The two revisions return equal values on every
  field they share for every input in ON_GRID mode; in OFF_GRID mode on \<open>gridImport\<close>,
  \<open>gridExport\<close>, \<open>gridActive\<close> and the battery-to-inverter wire statistics; and in every
  mode on the effective sun intensity, the generation, the panel voltage, the legacy wire
  analysis, the solar-to-controller and inverter-to-load wire statistics, the power at the
  controller, the battery level and percentage, the AC load and \<open>inverterInput\<close>.
\<close>

theorem revisions_agree:
  "SystemState_v1.truncate (calculateSystemState si al lvl cfg tod ON_GRID)
     = calculateSystemState_v1 si al lvl cfg tod ON_GRID
   \<and> gridImport (calculateSystemState si al lvl cfg tod OFF_GRID)
       = gridImport (calculateSystemState_v1 si al lvl cfg tod OFF_GRID)
   \<and> gridExport (calculateSystemState si al lvl cfg tod OFF_GRID)
       = gridExport (calculateSystemState_v1 si al lvl cfg tod OFF_GRID)
   \<and> gridActive (calculateSystemState si al lvl cfg tod OFF_GRID)
       = gridActive (calculateSystemState_v1 si al lvl cfg tod OFF_GRID)
   \<and> batteryToInverter (wireStats (calculateSystemState si al lvl cfg tod OFF_GRID))
       = batteryToInverter (wireStats (calculateSystemState_v1 si al lvl cfg tod OFF_GRID))
   \<and> SystemState_v1.sunIntensity (calculateSystemState si al lvl cfg tod m)
       = SystemState_v1.sunIntensity (calculateSystemState_v1 si al lvl cfg tod m)
   \<and> generation (calculateSystemState si al lvl cfg tod m)
       = generation (calculateSystemState_v1 si al lvl cfg tod m)
   \<and> panelVoltage (calculateSystemState si al lvl cfg tod m)
       = panelVoltage (calculateSystemState_v1 si al lvl cfg tod m)
   \<and> wireAnalysis (calculateSystemState si al lvl cfg tod m)
       = wireAnalysis (calculateSystemState_v1 si al lvl cfg tod m)
   \<and> solarToController (wireStats (calculateSystemState si al lvl cfg tod m))
       = solarToController (wireStats (calculateSystemState_v1 si al lvl cfg tod m))
   \<and> inverterToLoad (wireStats (calculateSystemState si al lvl cfg tod m))
       = inverterToLoad (wireStats (calculateSystemState_v1 si al lvl cfg tod m))
   \<and> powerAtController (calculateSystemState si al lvl cfg tod m)
       = powerAtController (calculateSystemState_v1 si al lvl cfg tod m)
   \<and> SystemState_v1.batteryLevel (calculateSystemState si al lvl cfg tod m)
       = SystemState_v1.batteryLevel (calculateSystemState_v1 si al lvl cfg tod m)
   \<and> batteryPercent (calculateSystemState si al lvl cfg tod m)
       = batteryPercent (calculateSystemState_v1 si al lvl cfg tod m)
   \<and> SystemState_v1.acLoad (calculateSystemState si al lvl cfg tod m)
       = SystemState_v1.acLoad (calculateSystemState_v1 si al lvl cfg tod m)
   \<and> inverterInput (calculateSystemState si al lvl cfg tod m)
       = inverterInput (calculateSystemState_v1 si al lvl cfg tod m)"
proof -
  have on: "SystemState_v1.truncate (calculateSystemState si al lvl cfg tod ON_GRID)
     = calculateSystemState_v1 si al lvl cfg tod ON_GRID"
    unfolding v1_on_grid
    by (simp add: calculateSystemState_def SystemState_v1.truncate_def Let_def
          finalLocals_on_grid)
  have off: "gridImport (calculateSystemState si al lvl cfg tod OFF_GRID)
       = gridImport (calculateSystemState_v1 si al lvl cfg tod OFF_GRID)
   \<and> gridExport (calculateSystemState si al lvl cfg tod OFF_GRID)
       = gridExport (calculateSystemState_v1 si al lvl cfg tod OFF_GRID)
   \<and> gridActive (calculateSystemState si al lvl cfg tod OFF_GRID)
       = gridActive (calculateSystemState_v1 si al lvl cfg tod OFF_GRID)
   \<and> batteryToInverter (wireStats (calculateSystemState si al lvl cfg tod OFF_GRID))
       = batteryToInverter (wireStats (calculateSystemState_v1 si al lvl cfg tod OFF_GRID))"
    by (simp add: css_gridImport css_gridExport css_gridActive finalLocals_off_grid
          v1_off_grid css_off_grid_batteryToInverter)
  show ?thesis
    using on off by (simp add: v1_mode_independent css_mode_independent)
qed

lemma css_battery_legs:
  "controllerToBattery (wireStats (calculateSystemState si al lvl cfg tod m))
     = calcWire (Locals.powerToBattery (finalLocals si al lvl cfg tod m))
         (batteryVoltage cfg) 5 (wireGaugeMm2 cfg)
   \<and> batteryToInverter (wireStats (calculateSystemState si al lvl cfg tod m))
     = calcWire (if gridChargingPower (finalLocals si al lvl cfg tod m) > 0
                 then gridChargingPower (finalLocals si al lvl cfg tod m)
                 else inverterDrawFromBattery (finalLocals si al lvl cfg tod m))
         (batteryVoltage cfg) 5 (wireGaugeMm2 cfg)"
  by (simp add: calculateSystemState_def Let_def)

lemma DEFAULT_CONFIG_fields:
  "numPanels DEFAULT_CONFIG = 2"
  "panelWattage DEFAULT_CONFIG = 250"
  "SystemConfig.panelVoltage DEFAULT_CONFIG = 25"
  "wireGaugeMm2 DEFAULT_CONFIG = 10"
  "wireLengthFt DEFAULT_CONFIG = 20"
  "batteryCapacityAh DEFAULT_CONFIG = 300"
  "batteryVoltage DEFAULT_CONFIG = 24"
  "batteryCRating DEFAULT_CONFIG = 20"
  "inverterEfficiency DEFAULT_CONFIG = 0.8"
  "controllerEfficiency DEFAULT_CONFIG = 0.9"
  by (simp_all add: DEFAULT_CONFIG_def)

lemma full_sun_at_controller:
  "powerAtControllerOf DEFAULT_CONFIG (solarInputOf DEFAULT_CONFIG (effectiveIntensityOf 1 12))
     = 7681436 / 15625"
  by (simp add: eval_defs)

lemma no_sun_at_controller:
  "powerAtControllerOf DEFAULT_CONFIG (solarInputOf DEFAULT_CONFIG (effectiveIntensityOf 0 tod))
     = 0"
  by (simp add: eval_defs)

lemmas default_eval = pipeline_defs full_sun_at_controller no_sun_at_controller
  maxChargePowerOf_def maxWhOf_def batteryPercentOf_def DEFAULT_CONFIG_fields calcWire_def Let_def

text \<open>
  The remaining shared fields differ. In HYBRID mode the earlier revision ties in the grid
  below 70 % and never exports, the later one discharges the battery down to 30 % and
  exports excess solar: at 50 % at night with a 100 W load they differ in \<open>gridImport\<close>,
  \<open>netBatteryFlow\<close> and the battery-to-inverter current, and at 80 % at noon in full sun
  with no load in \<open>gridActive\<close>, \<open>gridExport\<close>, \<open>powerToBattery\<close>, \<open>wastedPower\<close> and the
  controller-to-battery current. In OFF_GRID mode the earlier revision caps the controller
  output at the maximum charge power, the later one at the maximum charge power plus the
  inverter draw: at 50 % at noon in full sun with a 200 W load they differ in
  \<open>netBatteryFlow\<close>, \<open>powerToBattery\<close>, \<open>wastedPower\<close> and the controller-to-battery
  current.
\<close>

theorem revisions_differ:
  "gridImport (calculateSystemState 0 100 3600 DEFAULT_CONFIG 0 HYBRID) = 0
   \<and> gridImport (calculateSystemState_v1 0 100 3600 DEFAULT_CONFIG 0 HYBRID) = 100
   \<and> netBatteryFlow (calculateSystemState 0 100 3600 DEFAULT_CONFIG 0 HYBRID) = - 125
   \<and> netBatteryFlow (calculateSystemState_v1 0 100 3600 DEFAULT_CONFIG 0 HYBRID) = 0
   \<and> WireSegmentStats.current
        (batteryToInverter (wireStats (calculateSystemState 0 100 3600 DEFAULT_CONFIG 0 HYBRID)))
      = 125 / 24
   \<and> WireSegmentStats.current
        (batteryToInverter (wireStats (calculateSystemState_v1 0 100 3600 DEFAULT_CONFIG 0 HYBRID)))
      = 0
   \<and> gridActive (calculateSystemState 1 0 5760 DEFAULT_CONFIG 12 HYBRID)
   \<and> \<not> gridActive (calculateSystemState_v1 1 0 5760 DEFAULT_CONFIG 12 HYBRID)
   \<and> gridExport (calculateSystemState 1 0 5760 DEFAULT_CONFIG 12 HYBRID) = 25765848 / 390625
   \<and> gridExport (calculateSystemState_v1 1 0 5760 DEFAULT_CONFIG 12 HYBRID) = 0
   \<and> powerToBattery (calculateSystemState 1 0 5760 DEFAULT_CONFIG 12 HYBRID) = 34566462 / 78125
   \<and> powerToBattery (calculateSystemState_v1 1 0 5760 DEFAULT_CONFIG 12 HYBRID) = 360
   \<and> wastedPower (calculateSystemState 1 0 5760 DEFAULT_CONFIG 12 HYBRID) = 0
   \<and> wastedPower (calculateSystemState_v1 1 0 5760 DEFAULT_CONFIG 12 HYBRID) = 6441462 / 78125
   \<and> WireSegmentStats.current
        (controllerToBattery (wireStats (calculateSystemState 1 0 5760 DEFAULT_CONFIG 12 HYBRID)))
      = 5761077 / 312500
   \<and> WireSegmentStats.current
        (controllerToBattery (wireStats (calculateSystemState_v1 1 0 5760 DEFAULT_CONFIG 12 HYBRID)))
      = 15
   \<and> netBatteryFlow (calculateSystemState 1 200 3600 DEFAULT_CONFIG 12 OFF_GRID) = 15035212 / 78125
   \<and> netBatteryFlow (calculateSystemState_v1 1 200 3600 DEFAULT_CONFIG 12 OFF_GRID) = 110
   \<and> powerToBattery (calculateSystemState 1 200 3600 DEFAULT_CONFIG 12 OFF_GRID) = 34566462 / 78125
   \<and> powerToBattery (calculateSystemState_v1 1 200 3600 DEFAULT_CONFIG 12 OFF_GRID) = 360
   \<and> wastedPower (calculateSystemState 1 200 3600 DEFAULT_CONFIG 12 OFF_GRID) = 0
   \<and> wastedPower (calculateSystemState_v1 1 200 3600 DEFAULT_CONFIG 12 OFF_GRID) = 6441462 / 78125
   \<and> WireSegmentStats.current
        (controllerToBattery (wireStats (calculateSystemState 1 200 3600 DEFAULT_CONFIG 12 OFF_GRID)))
      = 5761077 / 312500
   \<and> WireSegmentStats.current
        (controllerToBattery (wireStats (calculateSystemState_v1 1 200 3600 DEFAULT_CONFIG 12 OFF_GRID)))
      = 15"
proof -
  have a: "gridImport (calculateSystemState 0 100 3600 DEFAULT_CONFIG 0 HYBRID) = 0
     \<and> netBatteryFlow (calculateSystemState 0 100 3600 DEFAULT_CONFIG 0 HYBRID) = - 125
     \<and> WireSegmentStats.current
          (batteryToInverter (wireStats (calculateSystemState 0 100 3600 DEFAULT_CONFIG 0 HYBRID)))
        = 125 / 24"
    by (simp add: css_gridImport css_netBatteryFlow css_battery_legs default_eval)
  have a1: "gridImport (calculateSystemState_v1 0 100 3600 DEFAULT_CONFIG 0 HYBRID) = 100
     \<and> netBatteryFlow (calculateSystemState_v1 0 100 3600 DEFAULT_CONFIG 0 HYBRID) = 0
     \<and> WireSegmentStats.current
          (batteryToInverter
            (wireStats (calculateSystemState_v1 0 100 3600 DEFAULT_CONFIG 0 HYBRID)))
        = 0"
    by (simp add: calculateSystemState_v1_def default_eval split_beta)
  have b: "gridActive (calculateSystemState 1 0 5760 DEFAULT_CONFIG 12 HYBRID)
     \<and> gridExport (calculateSystemState 1 0 5760 DEFAULT_CONFIG 12 HYBRID) = 25765848 / 390625
     \<and> powerToBattery (calculateSystemState 1 0 5760 DEFAULT_CONFIG 12 HYBRID)
         = 34566462 / 78125
     \<and> wastedPower (calculateSystemState 1 0 5760 DEFAULT_CONFIG 12 HYBRID) = 0
     \<and> WireSegmentStats.current
          (controllerToBattery (wireStats (calculateSystemState 1 0 5760 DEFAULT_CONFIG 12 HYBRID)))
        = 5761077 / 312500"
    by (simp add: css_gridActive css_gridExport css_powerToBattery css_wastedPower
          css_battery_legs default_eval)
  have b1: "\<not> gridActive (calculateSystemState_v1 1 0 5760 DEFAULT_CONFIG 12 HYBRID)
     \<and> gridExport (calculateSystemState_v1 1 0 5760 DEFAULT_CONFIG 12 HYBRID) = 0
     \<and> powerToBattery (calculateSystemState_v1 1 0 5760 DEFAULT_CONFIG 12 HYBRID) = 360
     \<and> wastedPower (calculateSystemState_v1 1 0 5760 DEFAULT_CONFIG 12 HYBRID)
         = 6441462 / 78125
     \<and> WireSegmentStats.current
          (controllerToBattery
            (wireStats (calculateSystemState_v1 1 0 5760 DEFAULT_CONFIG 12 HYBRID)))
        = 15"
    by (simp add: calculateSystemState_v1_def default_eval split_beta)
  have c: "netBatteryFlow (calculateSystemState 1 200 3600 DEFAULT_CONFIG 12 OFF_GRID)
         = 15035212 / 78125
     \<and> powerToBattery (calculateSystemState 1 200 3600 DEFAULT_CONFIG 12 OFF_GRID)
         = 34566462 / 78125
     \<and> wastedPower (calculateSystemState 1 200 3600 DEFAULT_CONFIG 12 OFF_GRID) = 0
     \<and> WireSegmentStats.current
          (controllerToBattery
            (wireStats (calculateSystemState 1 200 3600 DEFAULT_CONFIG 12 OFF_GRID)))
        = 5761077 / 312500"
    by (simp add: css_netBatteryFlow css_powerToBattery css_wastedPower css_battery_legs
          default_eval)
  have c1: "netBatteryFlow (calculateSystemState_v1 1 200 3600 DEFAULT_CONFIG 12 OFF_GRID) = 110
     \<and> powerToBattery (calculateSystemState_v1 1 200 3600 DEFAULT_CONFIG 12 OFF_GRID) = 360
     \<and> wastedPower (calculateSystemState_v1 1 200 3600 DEFAULT_CONFIG 12 OFF_GRID)
         = 6441462 / 78125
     \<and> WireSegmentStats.current
          (controllerToBattery
            (wireStats (calculateSystemState_v1 1 200 3600 DEFAULT_CONFIG 12 OFF_GRID)))
        = 15"
    by (simp add: calculateSystemState_v1_def default_eval split_beta)
  from a a1 b b1 c c1 show ?thesis by blast
qed

end
